theory Spec2Isabelle
  imports Complex_Main
begin

section \<open>JavaScript values and errors\<close>

text \<open>
  The page (\<^verbatim>\<open>src/pages/index.tsx\<close>) handles untyped JavaScript values: the result of
  \<^verbatim>\<open>JSON.parse\<close>, the body of the save response, the value kept in
  \<^verbatim>\<open>currentSnapshotId\<close>. They are modelled by one datatype; strings are byte strings
  (UTF-8), a number is the real it stands for (a value read from JSON is never
  \<^verbatim>\<open>NaN\<close> or infinite), an object is its list of own properties in insertion order,
  each name once.
\<close>

datatype jsvalue =
    JUndefined
  | JNull
  | JBool bool
  | JNumber real
  | JString string
  | JArray "jsvalue list"
  | JObject "(string \<times> jsvalue) list"

text \<open>JavaScript's ToBoolean, as used by \<^verbatim>\<open>x && <Dialog/>\<close>.\<close>

fun truthy :: "jsvalue \<Rightarrow> bool" where
  "truthy JUndefined = False"
| "truthy JNull = False"
| "truthy (JBool b) = b"
| "truthy (JNumber n) = (n \<noteq> 0)"
| "truthy (JString s) = (s \<noteq> [])"
| "truthy (JArray _) = True"
| "truthy (JObject _) = True"

text \<open>
  Thrown values. An error of the AWS SDK carries \<^verbatim>\<open>statusCode\<close> (absent for a
  network failure) and a \<^verbatim>\<open>code\<close>; the other errors have no such property, so
  reading it gives \<^verbatim>\<open>undefined\<close>.
\<close>

datatype js_error =
    Error string
  | TypeError string
  | SyntaxError string
  | AWSError "nat option" string string

fun statusCode :: "js_error \<Rightarrow> nat option" where
  "statusCode (AWSError sc _ _) = sc"
| "statusCode _ = None"

fun error_message :: "js_error \<Rightarrow> string" where
  "error_message (Error m) = m"
| "error_message (TypeError m) = m"
| "error_message (SyntaxError m) = m"
| "error_message (AWSError _ _ m) = m"

section \<open>Server side: \<^verbatim>\<open>getStaticProps\<close>\<close>

text \<open>
  What \<^verbatim>\<open>getStaticProps\<close> reads from its surroundings: the bucket name of the process
  environment, the S3 client's \<^verbatim>\<open>getObject(...).promise()\<close> (rejected with an error, or
  resolved with the object's body as text) and \<^verbatim>\<open>JSON.parse\<close> (throws a
  \<^verbatim>\<open>SyntaxError\<close>, or returns a value).
\<close>

record env =
  AWS_S3_BUCKET :: string
  s3_getObject :: "string \<Rightarrow> string \<Rightarrow> js_error + string"
  JSON_parse :: "string \<Rightarrow> js_error + jsvalue"

datatype previewData = PreviewData (snapshotId_of: string)

text \<open>The props object; a property the code leaves out is \<open>None\<close>.\<close>

record props =
  isPreview :: bool
  hasError :: "bool option"
  message :: "string option"
  snapshotId :: "string option"
  contents :: "jsvalue option"

definition not_exist_message :: string where
  "not_exist_message = ''The requested preview edit does not exist!''"

definition s3_error_message :: string where
  "s3_error_message =
     ''An error has occurred while connecting to S3. Please refresh the page to try again.''"

text \<open>The \<^verbatim>\<open>catch (e)\<close> block of \<^verbatim>\<open>getStaticProps\<close>.\<close>

definition catch_props :: "js_error \<Rightarrow> props" where
  "catch_props e =
     \<lparr> isPreview = False,
       hasError = Some True,
       message = Some (if statusCode e = Some 403 then not_exist_message else s3_error_message),
       snapshotId = None,
       contents = None \<rparr>"

definition getStaticProps :: "env \<Rightarrow> bool \<Rightarrow> previewData \<Rightarrow> props" where
  "getStaticProps ev preview pd =
     (if preview then
        (let sid = snapshotId_of pd in
         case s3_getObject ev (AWS_S3_BUCKET ev) (sid @ ''.json'') of
           Inl e \<Rightarrow> catch_props e
         | Inr body \<Rightarrow>
             (case JSON_parse ev body of
                Inl e \<Rightarrow> catch_props e
              | Inr c \<Rightarrow>
                  \<lparr> isPreview = True, hasError = None, message = None,
                    snapshotId = Some sid, contents = Some c \<rparr>))
      else
        \<lparr> isPreview = False, hasError = None, message = None,
          snapshotId = None, contents = None \<rparr>)"

section \<open>Client side: the \<^verbatim>\<open>Content\<close> component\<close>

text \<open>
  \<^verbatim>\<open>Content\<close> renders a fixed sequence of \<^verbatim>\<open>Malleable\<close> regions and hands
  \<^verbatim>\<open>isEdit\<close> and \<^verbatim>\<open>edits\<close> to each of them. The wrapping \<^verbatim>\<open>div\<close>s
  carry no data and are left out; the children of a region are its base text, links and
  line breaks.
\<close>

datatype inline = Text string | Anchor string string | Br

record malleable =
  region_id :: string
  as_tag :: "string option"
  className :: "string option"
  isActive :: bool
  edits :: jsvalue
  children :: "inline list"

definition Malleable ::
  "string \<Rightarrow> string option \<Rightarrow> string option \<Rightarrow> bool \<Rightarrow> jsvalue \<Rightarrow> inline list \<Rightarrow> malleable" where
  "Malleable i a c act es ch =
     \<lparr> region_id = i, as_tag = a, className = c, isActive = act, edits = es, children = ch \<rparr>"

definition edge_network_url :: string where
  "edge_network_url = ''https://vercel.com/docs/concepts/edge-network/overview''"

definition Content :: "bool \<Rightarrow> jsvalue \<Rightarrow> malleable list" where
  "Content isEdit' es =
     [ Malleable ''title'' (Some ''h1'') None isEdit' es [Text ''My Static Site''],
       Malleable ''feature-1-emoji'' (Some ''div'') None isEdit' es
         [Text [CHR 0xE2, CHR 0x9A, CHR 0xA1]],
       Malleable ''feature-1-text'' (Some ''h4'') None isEdit' es [Text ''Blazing fast''],
       Malleable ''feature-2-emoji'' (Some ''div'') None isEdit' es
         [Text [CHR 0xF0, CHR 0x9F, CHR 0x93, CHR 0xA1]],
       Malleable ''feature-2-text'' (Some ''h4'') None isEdit' es [Text ''Always available''],
       Malleable ''feature-3-emoji'' (Some ''div'') None isEdit' es
         [Text [CHR 0xF0, CHR 0x9F, CHR 0x8F, CHR 0x8E]],
       Malleable ''feature-3-text'' (Some ''h4'') None isEdit' es [Text ''Lighthouse 100''],
       Malleable ''title-2'' (Some ''h2'') None isEdit' es
         [ Text ''This demonstrates a static website generated using'', Text '' '',
           Anchor ''https://nextjs.org'' (''Next.js'' @ [CHR 0x27]), Text '' '',
           Text ''new'', Text '' '',
           Anchor ''https://nextjs.org/docs/basic-features/data-fetching/get-static-props''
             ''Static Site Generation (SSG)'',
           Text ''. View the source on'', Text '' '',
           Anchor ''https://github.com/vercel/preview-mode-demo'' ''GitHub'',
           Text ''.'' ],
       Malleable ''explanation-1-inspect'' (Some ''span'') None isEdit' es
         [ Text ''To inspect the response from'', Text '' '',
           Anchor edge_network_url ''our edge network'',
           Text '', run:'' ],
       Malleable ''explanation-1-pre-curl'' (Some ''pre'') None isEdit' es
         [Text ''curl -sI https://next-preview.vercel.app | grep x-vercel''],
       Malleable ''explanation-1-pre-response'' (Some ''pre'') (Some ''light'') isEdit' es
         [ Text ''x-vercel-cache: HIT'', Br,
           Text ''x-vercel-id: cle1::zzq7g-1604525989923-a33b3946ccee'' ],
       Malleable ''explanation-2'' None None isEdit' es
         [ Text (''When people visit this site, the response always comes instantly from''
                 @ '' their''), Text '' '',
           Anchor edge_network_url ''nearest location'',
           Text ''.'' ],
       Malleable ''explanation-3'' None None isEdit' es
         [ Text (''Unlike traditional static solutions, however, you can generate''
                 @ '' previews of edits that you can share with anyone you choose. To try it''
                 @ '' out, click the edit icon on the bottom right and edit the content.''
                 @ '' When you'' @ [CHR 0x27] @ ''re done, click the share icon on the bottom''
                 @ '' right to generate a shareable preview URL.'') ],
       Malleable ''explanation-4'' None None isEdit' es
         [ Text (''SSG and Preview Mode make Next.js the most optimal framework to''
                 @ '' integrate into your Headless CMS workflow. Learn more about the''
                 @ '' preview mode on''), Text '' '',
           Anchor ''https://nextjs.org/docs/advanced-features/preview-mode''
             ''our documentation.'' ] ]"

section \<open>Client side: the \<^verbatim>\<open>Home\<close> component\<close>

text \<open>
  The hooks of \<^verbatim>\<open>Home\<close>: three pieces of React state, the
  \<^verbatim>\<open>hasSaveRequest\<close> ref and the state \<^verbatim>\<open>isSharingView\<close> that mirrors it.
  \<^verbatim>\<open>currentError\<close> is \<^verbatim>\<open>null\<close> (\<open>None\<close>) or an error object.
\<close>

record home_state =
  currentSnapshotId :: jsvalue
  isEdit :: bool
  hasSaveRequest :: bool
  isSharingView :: bool
  currentError :: "js_error option"

definition initial_state :: home_state where
  "initial_state =
     \<lparr> currentSnapshotId = JNull, isEdit = False, hasSaveRequest = False,
       isSharingView = False, currentError = None \<rparr>"

text \<open>
  The rendered page of one mounted \<^verbatim>\<open>Home\<close>, one field per conditional part of the
  JSX it returns. The error page is its two headings, the text of its explanation, the
  heading of the reason and \<^verbatim>\<open>props.message\<close>; the document head is left out.
\<close>

datatype main_view =
    ErrorPage string string string string "string option"
  | ContentPage "malleable list"

datatype controls = SnapshotBar bool | EditButton

record page =
  errorDialog :: "string option"
  shareLinkDialog :: "jsvalue option"
  previewAside :: "(string \<times> string) option"
  main :: main_view
  toolbar :: controls

text \<open>\<^verbatim>\<open>const edits = props.isPreview ? props.contents : [];\<close>\<close>

definition home_edits :: "props \<Rightarrow> jsvalue" where
  "home_edits p =
     (if isPreview p then (case contents p of None \<Rightarrow> JUndefined | Some c \<Rightarrow> c)
      else JArray [])"

definition Home :: "props \<Rightarrow> home_state \<Rightarrow> page" where
  "Home p st =
     \<lparr> errorDialog =
         (case currentError st of None \<Rightarrow> None | Some e \<Rightarrow> Some (error_message e)),
       shareLinkDialog =
         (if truthy (currentSnapshotId st) then Some (currentSnapshotId st) else None),
       previewAside =
         (if isPreview p \<or> hasError p = Some True
          then Some (''/api/exit'', ''Preview Mode'') else None),
       main =
         (if hasError p = Some True
          then ErrorPage ''Oops'' ''Something unique to your preview went wrong.''
                 (''The production website is still available and this does not affect''
                  @ '' other users.'')
                 ''Reason'' (message p)
          else ContentPage (Content (isEdit st) (home_edits p))),
       toolbar =
         (if isEdit st then SnapshotBar (isSharingView st) else EditButton) \<rparr>"

text \<open>The editable regions a page shows: none on the error page.\<close>

fun regions :: "main_view \<Rightarrow> malleable list" where
  "regions (ErrorPage _ _ _ _ _) = []"
| "regions (ContentPage ms) = ms"

text \<open>A preview request whose snapshot cannot be loaded: the read or the parse throws.\<close>

definition load_failure :: "env \<Rightarrow> previewData \<Rightarrow> js_error option" where
  "load_failure ev pd =
     (case s3_getObject ev (AWS_S3_BUCKET ev) (snapshotId_of pd @ ''.json'') of
        Inl e \<Rightarrow> Some e
      | Inr body \<Rightarrow> (case JSON_parse ev body of Inl e \<Rightarrow> Some e | Inr _ \<Rightarrow> None))"

section \<open>Client side: capturing the edits\<close>

text \<open>
  The document that \<^verbatim>\<open>share\<close> queries: a tree of elements, each with its attributes,
  its rendered text (the property \<^verbatim>\<open>innerText\<close>) and its child elements.
\<close>

datatype element = Element (attributes: "(string \<times> string) list") (innerText: string)
  (childElements: "element list")

definition getAttribute :: "element \<Rightarrow> string \<Rightarrow> string option" where
  "getAttribute el name = map_of (attributes el) name"

text \<open>The property \<^verbatim>\<open>id\<close> reflects the attribute, and is empty without it.\<close>

definition element_id :: "element \<Rightarrow> string" where
  "element_id el = (case getAttribute el ''id'' of None \<Rightarrow> [] | Some v \<Rightarrow> v)"

text \<open>
  Every element below the root, in document order, paired with its \<^verbatim>\<open>parentNode\<close>.
  The root has no parent element and is no member.
\<close>

fun descendants :: "element \<Rightarrow> (element \<times> element) list" where
  "descendants (Element ats tx cs) =
     concat (map (\<lambda>c. (Element ats tx cs, c) # descendants c) cs)"

text \<open>
  The selector \<^verbatim>\<open>[id] > [contenteditable=true]\<close>: the parent has an attribute
  \<^verbatim>\<open>id\<close>, the element has the attribute \<^verbatim>\<open>contenteditable\<close> with the value
  \<^verbatim>\<open>true\<close>.
\<close>

definition editable_region :: "element \<times> element \<Rightarrow> bool" where
  "editable_region pc =
     (getAttribute (fst pc) ''id'' \<noteq> None
      \<and> getAttribute (snd pc) ''contenteditable'' = Some ''true'')"

definition querySelectorAll :: "element \<Rightarrow> (element \<times> element) list" where
  "querySelectorAll document = filter editable_region (descendants document)"

text \<open>The object literal \<^verbatim>\<open>{ id, innerText }\<close>.\<close>

definition FieldEdit :: "string \<Rightarrow> string \<Rightarrow> jsvalue" where
  "FieldEdit i t = JObject [(''id'', JString i), (''innerText'', JString t)]"

definition persistContents :: "element \<Rightarrow> jsvalue list" where
  "persistContents document =
     map (\<lambda>pc. FieldEdit (element_id (fst pc)) (innerText (snd pc)))
       (querySelectorAll document)"

text \<open>
  Two elements of a document can be equal as values, so a node is addressed by its
  position: the indices of the children on the way down from the root. \<open>located\<close>
  lists the nodes below the root in document order, each with its position and its
  parent.
\<close>

fun node_at :: "element \<Rightarrow> nat list \<Rightarrow> element option" where
  "node_at el [] = Some el"
| "node_at el (i # pos) =
     (if i < length (childElements el) then node_at (childElements el ! i) pos else None)"

fun located :: "element \<Rightarrow> (nat list \<times> element \<times> element) list"
  and located_from ::
    "element \<Rightarrow> nat \<Rightarrow> element list \<Rightarrow> (nat list \<times> element \<times> element) list" where
  "located (Element ats tx cs) = located_from (Element ats tx cs) 0 cs"
| "located_from p i [] = []"
| "located_from p i (c # cs) =
     ([i], p, c) # map (\<lambda>e. (i # fst e, snd e)) (located c) @ located_from p (Suc i) cs"

definition region_positions :: "element \<Rightarrow> nat list list" where
  "region_positions document =
     map fst (filter (\<lambda>e. editable_region (snd e)) (located document))"

section \<open>Client side: \<^verbatim>\<open>share\<close>\<close>

text \<open>
  \<^verbatim>\<open>share\<close> and the handlers of its promise chain act on the component through the
  setters and on the network through \<^verbatim>\<open>fetch\<close>. Each function of the model returns
  these effects in the order the code performs them.
\<close>

record request =
  url :: string
  http_method :: string
  body :: string
  headers :: "(string \<times> string) list"

datatype effect =
    SetSharing bool
  | SetSnapshotId jsvalue
  | SetError js_error
  | Fetch request

text \<open>\<^verbatim>\<open>setSharing\<close> writes the ref and the state together.\<close>

definition setSharing :: "bool \<Rightarrow> home_state \<Rightarrow> home_state" where
  "setSharing sharing st = st\<lparr> hasSaveRequest := sharing, isSharingView := sharing \<rparr>"

fun apply_effect :: "home_state \<Rightarrow> effect \<Rightarrow> home_state" where
  "apply_effect st (SetSharing b) = setSharing b st"
| "apply_effect st (SetSnapshotId v) = st\<lparr> currentSnapshotId := v \<rparr>"
| "apply_effect st (SetError e) = st\<lparr> currentError := Some e \<rparr>"
| "apply_effect st (Fetch q) = st"

definition apply_effects :: "home_state \<Rightarrow> effect list \<Rightarrow> home_state" where
  "apply_effects st effs = foldl apply_effect st effs"

text \<open>
  The synchronous part of \<^verbatim>\<open>share\<close>; \<^verbatim>\<open>JSON.stringify\<close> is the platform's and
  is a parameter.
\<close>

definition share :: "(jsvalue \<Rightarrow> string) \<Rightarrow> element \<Rightarrow> home_state \<Rightarrow> effect list" where
  "share JSON_stringify document st =
     (if hasSaveRequest st then []
      else
        [ SetSharing True,
          Fetch \<lparr> url = ''/api/save'',
                  http_method = ''POST'',
                  body = JSON_stringify (JArray (persistContents document)),
                  headers = [(''content-type'', ''application/json'')] \<rparr> ])"

text \<open>
  What \<^verbatim>\<open>fetch\<close> settles with: a rejection (network failure), or a response with its
  status and its body, whose reading fails with an error or gives the text.
\<close>

record response =
  status :: nat
  response_body :: "js_error + string"

datatype fetch_result = FetchRejected js_error | FetchResolved response

definition ok :: "response \<Rightarrow> bool" where
  "ok res = (200 \<le> status res \<and> status res \<le> 299)"

definition res_json :: "(string \<Rightarrow> js_error + jsvalue) \<Rightarrow> response \<Rightarrow> js_error + jsvalue" where
  "res_json parse res = (case response_body res of Inl e \<Rightarrow> Inl e | Inr t \<Rightarrow> parse t)"

definition res_text :: "response \<Rightarrow> js_error + string" where
  "res_text res = response_body res"

text \<open>A promise is fulfilled, rejected, or never settles.\<close>

datatype 'a promise = Fulfilled 'a | Rejected js_error | Pending

text \<open>Reading a property: of an object its own property, of anything else here nothing.\<close>

fun get_property :: "jsvalue \<Rightarrow> string \<Rightarrow> jsvalue" where
  "get_property (JObject kvs) k = (case map_of kvs k of None \<Rightarrow> JUndefined | Some v \<Rightarrow> v)"
| "get_property _ k = JUndefined"

definition destructure_message :: string where
  "destructure_message =
     ''Cannot destructure property '' @ [CHR 0x27] @ ''snapshotId'' @ [CHR 0x27]
       @ '' of '' @ [CHR 0x27] @ ''object null'' @ [CHR 0x27] @ '' as it is null.''"

text \<open>
  The first \<^verbatim>\<open>then\<close>: \<^verbatim>\<open>res.json()\<close> when the response is ok; otherwise a new
  promise whose executor awaits \<^verbatim>\<open>res.text()\<close> and rejects with its text. The executor
  is an async function: when \<^verbatim>\<open>res.text()\<close> itself rejects, neither \<^verbatim>\<open>resolve\<close>
  nor \<^verbatim>\<open>reject\<close> is ever called and the promise stays pending.
\<close>

definition on_response :: "(string \<Rightarrow> js_error + jsvalue) \<Rightarrow> response \<Rightarrow> jsvalue promise" where
  "on_response parse res =
     (if ok res then
        (case res_json parse res of Inl e \<Rightarrow> Rejected e | Inr v \<Rightarrow> Fulfilled v)
      else
        (case res_text res of Inl e \<Rightarrow> Pending | Inr t \<Rightarrow> Rejected (Error t)))"

text \<open>
  The second \<^verbatim>\<open>then\<close>: destructuring \<^verbatim>\<open>{ snapshotId }\<close> throws on
  \<^verbatim>\<open>null\<close> and \<^verbatim>\<open>undefined\<close>, otherwise \<^verbatim>\<open>setSnapshotId\<close> is called.
\<close>

definition on_json :: "jsvalue \<Rightarrow> effect list \<times> js_error option" where
  "on_json v =
     (if v = JNull \<or> v = JUndefined then ([], Some (TypeError destructure_message))
      else ([SetSnapshotId (get_property v ''snapshotId'')], None))"

text \<open>
  The whole chain \<^verbatim>\<open>fetch(...).then(...).then(...).catch(...).finally(...)\<close>: the
  effects it performs when it settles, \<open>None\<close> when it never does.
\<close>

definition settle :: "(string \<Rightarrow> js_error + jsvalue) \<Rightarrow> fetch_result \<Rightarrow> effect list option" where
  "settle parse r =
     (case (case r of FetchRejected e \<Rightarrow> Rejected e
                    | FetchResolved res \<Rightarrow> on_response parse res) of
        Pending \<Rightarrow> None
      | Rejected e \<Rightarrow> Some [SetError e, SetSharing False]
      | Fulfilled v \<Rightarrow>
          (case on_json v of
             (effs, Some e) \<Rightarrow> Some (effs @ [SetError e, SetSharing False])
           | (effs, None) \<Rightarrow> Some (effs @ [SetSharing False])))"

text \<open>The other callbacks of \<^verbatim>\<open>Home\<close>.\<close>

definition toggleEdit :: "home_state \<Rightarrow> home_state" where
  "toggleEdit st = st\<lparr> isEdit := \<not> isEdit st \<rparr>"

definition onClearError :: "home_state \<Rightarrow> home_state" where
  "onClearError st = st\<lparr> currentError := None \<rparr>"

definition clearSnapshot :: "home_state \<Rightarrow> home_state" where
  "clearSnapshot st = st\<lparr> currentSnapshotId := JNull \<rparr>"

section \<open>The page in its browser\<close>

text \<open>
  The component together with the network: the requests issued and not yet answered, and
  all requests ever sent. The user's actions and the answers of the network are events; a
  \<open>Settle\<close> event answers the oldest request in flight, and is ignored when there is none.
\<close>

record world =
  ui :: home_state
  in_flight :: "request list"
  sent :: "request list"

definition initial_world :: world where
  "initial_world = \<lparr> ui = initial_state, in_flight = [], sent = [] \<rparr>"

datatype event =
    Share element
  | Settle fetch_result
  | ToggleEdit
  | ClearError
  | ClearSnapshot

fun perform :: "world \<Rightarrow> effect \<Rightarrow> world" where
  "perform w (Fetch q) = w\<lparr> in_flight := in_flight w @ [q], sent := sent w @ [q] \<rparr>"
| "perform w (SetSharing b) = w\<lparr> ui := apply_effect (ui w) (SetSharing b) \<rparr>"
| "perform w (SetSnapshotId v) = w\<lparr> ui := apply_effect (ui w) (SetSnapshotId v) \<rparr>"
| "perform w (SetError e) = w\<lparr> ui := apply_effect (ui w) (SetError e) \<rparr>"

fun step ::
  "(jsvalue \<Rightarrow> string) \<Rightarrow> (string \<Rightarrow> js_error + jsvalue) \<Rightarrow> world \<Rightarrow> event \<Rightarrow> world" where
  "step str prs w (Share document) = foldl perform w (share str document (ui w))"
| "step str prs w (Settle r) =
     (case in_flight w of
        [] \<Rightarrow> w
      | q # qs \<Rightarrow>
          (case settle prs r of
             None \<Rightarrow> w\<lparr> in_flight := qs \<rparr>
           | Some effs \<Rightarrow> foldl perform (w\<lparr> in_flight := qs \<rparr>) effs))"
| "step str prs w ToggleEdit = w\<lparr> ui := toggleEdit (ui w) \<rparr>"
| "step str prs w ClearError = w\<lparr> ui := onClearError (ui w) \<rparr>"
| "step str prs w ClearSnapshot = w\<lparr> ui := clearSnapshot (ui w) \<rparr>"

definition run ::
  "(jsvalue \<Rightarrow> string) \<Rightarrow> (string \<Rightarrow> js_error + jsvalue) \<Rightarrow> world \<Rightarrow> event list \<Rightarrow> world" where
  "run str prs w evs = foldl (step str prs) w evs"

text \<open>The invariant of the guard: a request in flight has the flag set, and it is alone.\<close>

definition guarded :: "world \<Rightarrow> bool" where
  "guarded w = ((in_flight w = [] \<or> hasSaveRequest (ui w)) \<and> length (in_flight w) \<le> 1)"

text \<open>A state with the guard set and no request in flight.\<close>

definition stuck :: "world \<Rightarrow> bool" where
  "stuck w = (hasSaveRequest (ui w) \<and> in_flight w = [])"

section \<open>The platform's JSON functions\<close>

text \<open>
  \<^verbatim>\<open>JSON.stringify\<close> and \<^verbatim>\<open>JSON.parse\<close> are the platform's. They are modelled
  after their standard (ECMA-262, the JSON object) on the values of \<open>jsvalue\<close>, with the
  strings as well-formed UTF-8 bytes (no lone surrogate): a character outside ASCII passes
  through both functions as its bytes, and an escaped code unit is decoded to its bytes
  (a surrogate pair to the four bytes of its character). The properties of an object are
  written in the order of its list. The page serialises no number; how the platform
  writes a number and reads a numeric literal is a parameter of each function.
\<close>

abbreviation dquote :: char where "dquote \<equiv> CHR 0x22"
abbreviation backslash :: char where "backslash \<equiv> CHR 0x5C"

definition hex_digit :: "nat \<Rightarrow> char" where
  "hex_digit d = (if d < 10 then char_of (48 + d) else char_of (87 + d))"

definition hex_value :: "char \<Rightarrow> nat option" where
  "hex_value c =
     (let n = (of_char c :: nat) in
      if 48 \<le> n \<and> n \<le> 57 then Some (n - 48)
      else if 97 \<le> n \<and> n \<le> 102 then Some (n - 87)
      else if 65 \<le> n \<and> n \<le> 70 then Some (n - 55)
      else None)"

definition hex4 :: "char \<Rightarrow> char \<Rightarrow> char \<Rightarrow> char \<Rightarrow> nat option" where
  "hex4 a b c d =
     (case (hex_value a, hex_value b, hex_value c, hex_value d) of
        (Some w, Some x, Some y, Some z) \<Rightarrow> Some (((w * 16 + x) * 16 + y) * 16 + z)
      | _ \<Rightarrow> None)"

text \<open>Quoting a string: the short escapes, \<^verbatim>\<open>\u00XX\<close> for the other control characters.\<close>

definition quote_char :: "char \<Rightarrow> string" where
  "quote_char c =
     (if c = dquote then [backslash, dquote]
      else if c = backslash then [backslash, backslash]
      else if c = CHR 0x08 then [backslash, CHR ''b'']
      else if c = CHR 0x0C then [backslash, CHR ''f'']
      else if c = CHR 0x0A then [backslash, CHR ''n'']
      else if c = CHR 0x0D then [backslash, CHR ''r'']
      else if c = CHR 0x09 then [backslash, CHR ''t'']
      else if (of_char c :: nat) < 32 then
        [backslash, CHR ''u'', CHR ''0'', CHR ''0'',
         hex_digit (of_char c div 16), hex_digit (of_char c mod 16)]
      else [c])"

definition quote :: "string \<Rightarrow> string" where
  "quote s = dquote # concat (map quote_char s) @ [dquote]"

fun join :: "string \<Rightarrow> string list \<Rightarrow> string" where
  "join sep [] = []"
| "join sep [x] = x"
| "join sep (x # y # ys) = x @ sep @ join sep (y # ys)"

text \<open>
  \<^verbatim>\<open>JSON.stringify\<close> of one argument. Of \<^verbatim>\<open>undefined\<close> there is no text: in an
  array it is written as \<^verbatim>\<open>null\<close>, a property holding it is left out, and on its own
  (where \<^verbatim>\<open>fetch\<close> would send no body) the model gives the empty text.
\<close>

fun serialize :: "(real \<Rightarrow> string) \<Rightarrow> jsvalue \<Rightarrow> string option" where
  "serialize nts JUndefined = None"
| "serialize nts JNull = Some ''null''"
| "serialize nts (JBool b) = Some (if b then ''true'' else ''false'')"
| "serialize nts (JNumber r) = Some (nts r)"
| "serialize nts (JString s) = Some (quote s)"
| "serialize nts (JArray vs) =
     Some (''['' @ join '',''
        (map (\<lambda>v. case serialize nts v of None \<Rightarrow> ''null'' | Some t \<Rightarrow> t) vs) @ '']'')"
| "serialize nts (JObject kvs) =
     Some (''{'' @ join '',''
        (concat (map (\<lambda>kv. case serialize nts (snd kv) of
                             None \<Rightarrow> []
                           | Some t \<Rightarrow> [quote (fst kv) @ '':'' @ t]) kvs)) @ ''}'')"

definition json_stringify :: "(real \<Rightarrow> string) \<Rightarrow> jsvalue \<Rightarrow> string" where
  "json_stringify nts v = (case serialize nts v of None \<Rightarrow> [] | Some t \<Rightarrow> t)"

definition utf8 :: "nat \<Rightarrow> string" where
  "utf8 n =
     (if n < 0x80 then [char_of n]
      else if n < 0x800 then [char_of (0xC0 + n div 64), char_of (0x80 + n mod 64)]
      else if n < 0x10000 then
        [char_of (0xE0 + n div 4096), char_of (0x80 + n div 64 mod 64), char_of (0x80 + n mod 64)]
      else
        [char_of (0xF0 + n div 262144), char_of (0x80 + n div 4096 mod 64),
         char_of (0x80 + n div 64 mod 64), char_of (0x80 + n mod 64)])"

definition unescape :: "char \<Rightarrow> char option" where
  "unescape e =
     (if e = dquote then Some dquote
      else if e = backslash then Some backslash
      else if e = CHR ''/'' then Some CHR ''/''
      else if e = CHR ''b'' then Some (CHR 0x08)
      else if e = CHR ''f'' then Some (CHR 0x0C)
      else if e = CHR ''n'' then Some (CHR 0x0A)
      else if e = CHR ''r'' then Some (CHR 0x0D)
      else if e = CHR ''t'' then Some (CHR 0x09)
      else None)"

text \<open>A low surrogate escape (six characters) at the head of the text.\<close>

definition low_surrogate :: "string \<Rightarrow> nat option" where
  "low_surrogate s =
     (case s of
        b # u # h1 # h2 # h3 # h4 # rest \<Rightarrow>
          (if b = backslash \<and> u = CHR ''u'' then
             (case hex4 h1 h2 h3 h4 of
                Some m \<Rightarrow> if 0xDC00 \<le> m \<and> m < 0xE000 then Some m else None
              | None \<Rightarrow> None)
           else None)
      | _ \<Rightarrow> None)"

text \<open>The characters of a string literal after its opening quote, and the text after it.\<close>

function parse_chars :: "string \<Rightarrow> (string \<times> string) option" where
  "parse_chars [] = None"
| "parse_chars (c # cs) =
     (if c = dquote then Some ([], cs)
      else if c = backslash then
        (case cs of
           [] \<Rightarrow> None
         | e # cs' \<Rightarrow>
             (if e = CHR ''u'' then
                (case cs' of
                   h1 # h2 # h3 # h4 # cs'' \<Rightarrow>
                     (case hex4 h1 h2 h3 h4 of
                        None \<Rightarrow> None
                      | Some n \<Rightarrow>
                          (case (if 0xD800 \<le> n \<and> n < 0xDC00 then low_surrogate cs'' else None) of
                             Some m \<Rightarrow>
                               map_option
                                 (\<lambda>sr. (utf8 (0x10000 + (n - 0xD800) * 0x400 + (m - 0xDC00))
                                          @ fst sr, snd sr))
                                 (parse_chars (drop 6 cs''))
                           | None \<Rightarrow>
                               map_option (\<lambda>sr. (utf8 n @ fst sr, snd sr)) (parse_chars cs'')))
                 | _ \<Rightarrow> None)
              else
                (case unescape e of
                   None \<Rightarrow> None
                 | Some d \<Rightarrow> map_option (\<lambda>sr. (d # fst sr, snd sr)) (parse_chars cs'))))
      else if (of_char c :: nat) < 32 then None
      else map_option (\<lambda>sr. (c # fst sr, snd sr)) (parse_chars cs))"
  by pat_completeness auto
termination
  by (relation "measure length") auto

definition is_space :: "char \<Rightarrow> bool" where
  "is_space c = (c = CHR 0x20 \<or> c = CHR 0x09 \<or> c = CHR 0x0A \<or> c = CHR 0x0D)"

definition skip_ws :: "string \<Rightarrow> string" where
  "skip_ws s = dropWhile is_space s"

definition number_char :: "char \<Rightarrow> bool" where
  "number_char c =
     ((48 \<le> (of_char c :: nat) \<and> (of_char c :: nat) \<le> 57)
      \<or> c = CHR ''-'' \<or> c = CHR ''+'' \<or> c = CHR ''.'' \<or> c = CHR ''e'' \<or> c = CHR ''E'')"

fun strip_prefix :: "string \<Rightarrow> string \<Rightarrow> string option" where
  "strip_prefix [] s = Some s"
| "strip_prefix (p # ps) [] = None"
| "strip_prefix (p # ps) (c # cs) = (if p = c then strip_prefix ps cs else None)"

text \<open>
  \<^verbatim>\<open>JSON.parse\<close>: a recursive descent over the text. The recursion is on a bound,
  one more than the length of the text; each value, element and member spends one. A
  numeric literal is the longest run of the characters a number is written with, and the
  parameter reads it or refuses it. A
  repeated property name keeps its first place and its last value, and names that are
  array indices come first, in ascending order, as in an object of the platform. The
  message of the \<^verbatim>\<open>SyntaxError\<close> is the engine's and is one fixed text here.
\<close>

text \<open>Array indices as property names: \<^verbatim>\<open>0\<close>, or digits without a leading zero.\<close>

fun digits_value :: "nat \<Rightarrow> string \<Rightarrow> nat option" where
  "digits_value acc [] = Some acc"
| "digits_value acc (c # cs) =
     (if 48 \<le> (of_char c :: nat) \<and> (of_char c :: nat) \<le> 57
      then digits_value (acc * 10 + (of_char c - 48)) cs else None)"

definition array_index :: "string \<Rightarrow> nat option" where
  "array_index k =
     (case k of
        [] \<Rightarrow> None
      | c # cs \<Rightarrow>
          (if c = CHR ''0'' \<and> cs \<noteq> [] then None
           else (case digits_value 0 k of
                   Some n \<Rightarrow> if n < 4294967295 then Some n else None
                 | None \<Rightarrow> None)))"

fun set_property :: "(string \<times> jsvalue) list \<Rightarrow> string \<Rightarrow> jsvalue \<Rightarrow> (string \<times> jsvalue) list" where
  "set_property [] k v = [(k, v)]"
| "set_property (kv # kvs) k v =
     (if fst kv = k then (k, v) # kvs else kv # set_property kvs k v)"

definition object_of :: "(string \<times> jsvalue) list \<Rightarrow> (string \<times> jsvalue) list" where
  "object_of members =
     (let kvs = foldl (\<lambda>acc kv. set_property acc (fst kv) (snd kv)) [] members in
      sort_key (\<lambda>kv. case array_index (fst kv) of Some n \<Rightarrow> n | None \<Rightarrow> 0)
        (filter (\<lambda>kv. array_index (fst kv) \<noteq> None) kvs)
      @ filter (\<lambda>kv. array_index (fst kv) = None) kvs)"

fun parse_value :: "(string \<Rightarrow> real option) \<Rightarrow> nat \<Rightarrow> string \<Rightarrow> (jsvalue \<times> string) option"
  and parse_elements ::
    "(string \<Rightarrow> real option) \<Rightarrow> nat \<Rightarrow> string \<Rightarrow> (jsvalue list \<times> string) option"
  and parse_members ::
    "(string \<Rightarrow> real option) \<Rightarrow> nat \<Rightarrow> string \<Rightarrow> ((string \<times> jsvalue) list \<times> string) option" where
  "parse_value stn 0 s = None"
| "parse_value stn (Suc n) s =
     (case skip_ws s of
        [] \<Rightarrow> None
      | c # cs \<Rightarrow>
          (if c = dquote then map_option (\<lambda>tr. (JString (fst tr), snd tr)) (parse_chars cs)
           else if c = CHR ''['' then
             (case skip_ws cs of
                [] \<Rightarrow> None
              | d # ds \<Rightarrow>
                  (if d = CHR '']'' then Some (JArray [], ds)
                   else map_option (\<lambda>vr. (JArray (fst vr), snd vr))
                          (parse_elements stn n (d # ds))))
           else if c = CHR ''{'' then
             (case skip_ws cs of
                [] \<Rightarrow> None
              | d # ds \<Rightarrow>
                  (if d = CHR ''}'' then Some (JObject [], ds)
                   else map_option (\<lambda>mr. (JObject (object_of (fst mr)), snd mr))
                          (parse_members stn n (d # ds))))
           else if c = CHR ''t'' then
             map_option (\<lambda>r. (JBool True, r)) (strip_prefix ''rue'' cs)
           else if c = CHR ''f'' then
             map_option (\<lambda>r. (JBool False, r)) (strip_prefix ''alse'' cs)
           else if c = CHR ''n'' then
             map_option (\<lambda>r. (JNull, r)) (strip_prefix ''ull'' cs)
           else if number_char c then
             map_option (\<lambda>x. (JNumber x, dropWhile number_char cs))
               (stn (c # takeWhile number_char cs))
           else None))"
| "parse_elements stn 0 s = None"
| "parse_elements stn (Suc n) s =
     (case parse_value stn n s of
        None \<Rightarrow> None
      | Some (v, r) \<Rightarrow>
          (case skip_ws r of
             [] \<Rightarrow> None
           | c # cs \<Rightarrow>
               (if c = CHR '','' then
                  map_option (\<lambda>vr. (v # fst vr, snd vr)) (parse_elements stn n cs)
                else if c = CHR '']'' then Some ([v], cs)
                else None)))"
| "parse_members stn 0 s = None"
| "parse_members stn (Suc n) s =
     (case skip_ws s of
        [] \<Rightarrow> None
      | c # cs \<Rightarrow>
          (if c = dquote then
             (case parse_chars cs of
                None \<Rightarrow> None
              | Some (k, r) \<Rightarrow>
                  (case skip_ws r of
                     [] \<Rightarrow> None
                   | d # ds \<Rightarrow>
                       (if d = CHR '':'' then
                          (case parse_value stn n ds of
                             None \<Rightarrow> None
                           | Some (v, r') \<Rightarrow>
                               (case skip_ws r' of
                                  [] \<Rightarrow> None
                                | e # es \<Rightarrow>
                                    (if e = CHR '','' then
                                       map_option (\<lambda>mr. ((k, v) # fst mr, snd mr))
                                         (parse_members stn n es)
                                     else if e = CHR ''}'' then Some ([(k, v)], es)
                                     else None)))
                        else None)))
           else None))"

definition json_parse :: "(string \<Rightarrow> real option) \<Rightarrow> string \<Rightarrow> js_error + jsvalue" where
  "json_parse stn s =
     (case parse_value stn (Suc (length s)) s of
        None \<Rightarrow> Inl (SyntaxError ''Unexpected token in JSON'')
      | Some (v, r) \<Rightarrow>
          if skip_ws r = [] then Inr v else Inl (SyntaxError ''Unexpected token in JSON''))"

text \<open>The text \<^verbatim>\<open>JSON.stringify\<close> writes for the object \<^verbatim>\<open>{ id, innerText }\<close>.\<close>

definition edit_text :: "string \<Rightarrow> string \<Rightarrow> string" where
  "edit_text i t =
     ''{'' @ quote ''id'' @ '':'' @ quote i @ '','' @ quote ''innerText'' @ '':'' @ quote t @ ''}''"


section \<open>The save endpoint and the store\<close>

text \<open>
  Modelled from the spec: the save endpoint (\<^verbatim>\<open>pages/api/save\<close>) is not among the
  sources. By the specification, \<^verbatim>\<open>save\<close> accepts the sequence of field edits as the
  request payload, generates a fresh identifier, serializes the edits as the snapshot
  payload, writes it to the blob backend under a key derived from the identifier (the
  key that \<^verbatim>\<open>getStaticProps\<close> reads is the identifier followed by \<^verbatim>\<open>.json\<close>), and
  returns the identifier; on failure it returns a non-success status with a textual error
  message as the body. The fresh identifier and whether the backend accepts the write are
  parameters; the status codes 400 and 500 stand for non-success.
\<close>

type_synonym blob_store = "string \<Rightarrow> string option"

definition api_save ::
  "(jsvalue \<Rightarrow> string) \<Rightarrow> (string \<Rightarrow> js_error + jsvalue) \<Rightarrow> string \<Rightarrow> bool \<Rightarrow> blob_store
     \<Rightarrow> request \<Rightarrow> blob_store \<times> response" where
  "api_save str prs new_id backend_up store q =
     (case prs (body q) of
        Inl e \<Rightarrow> (store, \<lparr> status = 400, response_body = Inr (error_message e) \<rparr>)
      | Inr payload \<Rightarrow>
          (if backend_up then
             (store(new_id @ ''.json'' \<mapsto> str payload),
              \<lparr> status = 200,
                response_body = Inr (str (JObject [(''snapshotId'', JString new_id)])) \<rparr>)
           else (store, \<lparr> status = 500, response_body = Inr ''StoreUnavailable'' \<rparr>)))"

text \<open>
  Modelled from the spec: the blob backend's \<^verbatim>\<open>get\<close>, an opaque key-value store. A key
  that is present gives its blob; for an absent key the backend rejects with the error
  \<open>missing\<close>, a parameter.
\<close>

definition s3_of_store :: "js_error \<Rightarrow> blob_store \<Rightarrow> string \<Rightarrow> string \<Rightarrow> js_error + string" where
  "s3_of_store missing store bucket key =
     (case store key of None \<Rightarrow> Inl missing | Some blob \<Rightarrow> Inr blob)"

definition store_env ::
  "string \<Rightarrow> js_error \<Rightarrow> blob_store \<Rightarrow> (string \<Rightarrow> js_error + jsvalue) \<Rightarrow> env" where
  "store_env bucket missing store prs =
     \<lparr> AWS_S3_BUCKET = bucket, s3_getObject = s3_of_store missing store, JSON_parse = prs \<rparr>"

section \<open>Example backends\<close>

text \<open>A backend whose every read is rejected with the given error, and two errors of S3.\<close>

definition failing_env :: "js_error \<Rightarrow> env" where
  "failing_env e =
     \<lparr> AWS_S3_BUCKET = ''snapshots'',
       s3_getObject = (\<lambda>bucket key. Inl e),
       JSON_parse = (\<lambda>s. Inl (SyntaxError ''Unexpected end of JSON input'')) \<rparr>"

definition access_denied :: js_error where
  "access_denied = AWSError (Some 403) ''AccessDenied'' ''Access Denied''"

definition no_such_key :: js_error where
  "no_such_key = AWSError (Some 404) ''NoSuchKey'' ''The specified key does not exist.''"


section \<open>Example page and exchange\<close>

text \<open>
  A document with one editable region, the payload captured from it, the reply of the save
  endpoint, and the two JSON functions on exactly the texts this exchange carries.
\<close>

definition example_document :: element where
  "example_document =
     Element [] ''Hello'' [
       Element [(''id'', ''title'')] ''Hello'' [
         Element [(''contenteditable'', ''true'')] ''Hello'' []]]"

text \<open>
  A document with four editable elements: two regions that are equal as values, a third
  region, and an editable element whose parent has no \<^verbatim>\<open>id\<close>.
\<close>

definition two_region_document :: element where
  "two_region_document =
     Element [] ''Hello Fast'' [
       Element [(''id'', ''title'')] ''Hello'' [
         Element [(''contenteditable'', ''true'')] ''Hello'' []],
       Element [(''class'', ''features'')] ''Fast'' [
         Element [(''id'', ''feature-1-text'')] ''Fast'' [
           Element [(''contenteditable'', ''true'')] ''Fast'' []],
         Element [] ''Fast'' [
           Element [(''contenteditable'', ''true'')] ''Fast'' []]],
       Element [(''id'', ''title'')] ''Hello'' [
         Element [(''contenteditable'', ''true'')] ''Hello'' []]]"

definition example_payload :: jsvalue where
  "example_payload = JArray [FieldEdit ''title'' ''Hello'']"

definition example_payload_text :: string where
  "example_payload_text =
     [CHR 0x5B, CHR 0x7B, CHR 0x22] @ ''id'' @ [CHR 0x22, CHR 0x3A, CHR 0x22] @ ''title''
     @ [CHR 0x22, CHR 0x2C, CHR 0x22] @ ''innerText'' @ [CHR 0x22, CHR 0x3A, CHR 0x22]
     @ ''Hello'' @ [CHR 0x22, CHR 0x7D, CHR 0x5D]"

definition example_reply :: jsvalue where
  "example_reply = JObject [(''snapshotId'', JString ''abc123'')]"

definition example_reply_text :: string where
  "example_reply_text =
     [CHR 0x7B, CHR 0x22] @ ''snapshotId'' @ [CHR 0x22, CHR 0x3A, CHR 0x22] @ ''abc123''
     @ [CHR 0x22, CHR 0x7D]"

definition example_stringify :: "jsvalue \<Rightarrow> string" where
  "example_stringify v =
     (if v = example_payload then example_payload_text
      else if v = example_reply then example_reply_text
      else ''null'')"

definition example_parse :: "string \<Rightarrow> js_error + jsvalue" where
  "example_parse s =
     (if s = example_payload_text then Inr example_payload
      else if s = example_reply_text then Inr example_reply
      else Inl (SyntaxError ''Unexpected token''))"

definition example_request :: request where
  "example_request =
     \<lparr> url = ''/api/save'', http_method = ''POST'', body = example_payload_text,
       headers = [(''content-type'', ''application/json'')] \<rparr>"

definition example_failure :: response where
  "example_failure = \<lparr> status = 500, response_body = Inr ''StoreUnavailable'' \<rparr>"

text \<open>
  The examples hold no number: a platform that reads no numeric literal and writes
  \<^verbatim>\<open>null\<close> for a number (as the platform does for \<^verbatim>\<open>NaN\<close>).
\<close>

definition write_no_number :: "real \<Rightarrow> string" where
  "write_no_number r = ''null''"

definition read_no_number :: "string \<Rightarrow> real option" where
  "read_no_number s = None"

definition example_success :: response where
  "example_success = \<lparr> status = 200, response_body = Inr example_reply_text \<rparr>"

definition null_reply :: response where
  "null_reply = \<lparr> status = 200, response_body = Inr ''null'' \<rparr>"

definition html_reply :: response where
  "html_reply = \<lparr> status = 200, response_body = Inr ''<html>'' \<rparr>"

definition canonical_props :: props where
  "canonical_props = getStaticProps (failing_env access_denied) False (PreviewData [])"

section \<open>Facts about rendering\<close>

lemma Content_edits: "m \<in> set (Content b es) \<Longrightarrow> edits m = es"
  by (auto simp: Content_def Malleable_def)

lemma getStaticProps_failure:
  "load_failure ev pd = Some e \<Longrightarrow> getStaticProps ev True pd = catch_props e"
  by (auto simp: load_failure_def getStaticProps_def Let_def split: sum.splits)


subsection \<open>Failed preview loads\<close>

text \<open>
  Claim C1. A preview request (\<open>preview = True\<close>) whose snapshot load fails, whatever the
  error thrown by the read or by the parse, renders the error page: the headings
  \<^verbatim>\<open>Oops\<close> and \<^verbatim>\<open>Something unique to your preview went wrong.\<close> with the failure
  message, no editable region at all (no content merge), and never a content page; in
  particular not the page a non-preview request renders.
\<close>

theorem preview_load_failure_renders_error_page:
  assumes "load_failure ev pd = Some e"
  shows "main (Home (getStaticProps ev True pd) st) =
           ErrorPage ''Oops'' ''Something unique to your preview went wrong.''
             (''The production website is still available and this does not affect''
              @ '' other users.'')
             ''Reason''
             (Some (if statusCode e = Some 403 then not_exist_message else s3_error_message))
         \<and> regions (main (Home (getStaticProps ev True pd) st)) = []
         \<and> main (Home (getStaticProps ev True pd) st) \<noteq> ContentPage ms
         \<and> main (Home (getStaticProps ev True pd) st)
             \<noteq> main (Home (getStaticProps ev False pd) st')"
proof -
  have p: "getStaticProps ev True pd = catch_props e"
    using assms by (rule getStaticProps_failure)
  have q: "hasError (getStaticProps ev False pd) = None"
    by (simp add: getStaticProps_def)
  show ?thesis
    by (simp add: p q Home_def catch_props_def)
qed

theorem preview_load_failure_renders_error_page_witness:
  "load_failure (failing_env access_denied) (PreviewData ''abc123'') = Some access_denied
   \<and> main (Home (getStaticProps (failing_env access_denied) True (PreviewData ''abc123''))
        initial_state) =
       ErrorPage ''Oops'' ''Something unique to your preview went wrong.''
         (''The production website is still available and this does not affect''
          @ '' other users.'')
         ''Reason'' (Some not_exist_message)
   \<and> regions (main (Home (getStaticProps (failing_env access_denied) True
        (PreviewData ''abc123'')) initial_state)) = []"
  using preview_load_failure_renders_error_page
    [of "failing_env access_denied" "PreviewData ''abc123''" access_denied initial_state]
  by (simp add: load_failure_def failing_env_def access_denied_def)



subsection \<open>The preview indicator and the canonical path\<close>

text \<open>
  Claim C7. The page shows the preview-mode indicator, a link to \<^verbatim>\<open>/api/exit\<close>, exactly
  when the props say preview or say error, and shows none otherwise. Read on requests:
  every preview request, whether its snapshot loads or not, gets the indicator, and a
  non-preview request gets none.
\<close>

theorem preview_indicator_presence:
  "previewAside (Home p st) =
     (if isPreview p \<or> hasError p = Some True
      then Some (''/api/exit'', ''Preview Mode'') else None)
   \<and> previewAside (Home (getStaticProps ev preview pd) st) =
     (if preview then Some (''/api/exit'', ''Preview Mode'') else None)"
  by (simp add: Home_def getStaticProps_def catch_props_def Let_def split: sum.splits)

text \<open>
  Claim C8. With \<open>isPreview\<close> false the overlay handed to rendering is the empty array:
  every editable region on the page receives no edits, and unless the props say error the
  page is the base content with the empty overlay. A non-preview request renders exactly
  that canonical page.
\<close>

theorem non_preview_renders_base_content:
  assumes "\<not> isPreview p"
  shows "home_edits p = JArray []
         \<and> (\<forall>m \<in> set (regions (main (Home p st))). edits m = JArray [])
         \<and> (hasError p \<noteq> Some True \<longrightarrow>
              main (Home p st) = ContentPage (Content (isEdit st) (JArray [])))
         \<and> main (Home (getStaticProps ev False pd) st) =
              ContentPage (Content (isEdit st) (JArray []))"
proof -
  have e: "home_edits p = JArray []"
    using assms by (simp add: home_edits_def)
  have r: "\<forall>m \<in> set (regions (main (Home p st))). edits m = JArray []"
    by (auto simp: Home_def e dest: Content_edits)
  have c: "hasError p \<noteq> Some True \<longrightarrow>
             main (Home p st) = ContentPage (Content (isEdit st) (JArray []))"
    by (simp add: Home_def e)
  have g: "main (Home (getStaticProps ev False pd) st) =
             ContentPage (Content (isEdit st) (JArray []))"
    by (simp add: Home_def getStaticProps_def home_edits_def)
  from e r c g show ?thesis by blast
qed

theorem non_preview_renders_base_content_witness:
  "\<not> isPreview (getStaticProps (failing_env access_denied) False (PreviewData ''abc123''))
   \<and> main (Home (getStaticProps (failing_env access_denied) False (PreviewData ''abc123''))
        initial_state) = ContentPage (Content False (JArray []))
   \<and> list_all (\<lambda>m. edits m = JArray [])
        (regions (main (Home (getStaticProps (failing_env access_denied) False
           (PreviewData ''abc123'')) initial_state)))"
  using non_preview_renders_base_content
    [of "getStaticProps (failing_env access_denied) False (PreviewData ''abc123'')"
        initial_state "failing_env access_denied" "PreviewData ''abc123''"]
  by (simp add: getStaticProps_def initial_state_def list_all_iff)

text \<open>
  Claim C10. In every result of \<^verbatim>\<open>getStaticProps\<close>, \<open>hasError\<close> true implies
  \<open>isPreview\<close> false; a failed preview request returns exactly that combination although
  the request was a preview request. So the overlay handed to rendering is the empty
  array in every error state and every non-preview state, and the indicator on the
  error page is there because of \<open>hasError\<close>, \<open>isPreview\<close> being false.
\<close>

theorem error_props_report_non_preview:
  "(hasError (getStaticProps ev preview pd) = Some True \<longrightarrow>
      \<not> isPreview (getStaticProps ev preview pd))
   \<and> (hasError (getStaticProps ev preview pd) = Some True
        \<or> \<not> isPreview (getStaticProps ev preview pd) \<longrightarrow>
      home_edits (getStaticProps ev preview pd) = JArray [])
   \<and> (preview \<and> load_failure ev pd = Some e \<longrightarrow>
        hasError (getStaticProps ev preview pd) = Some True
        \<and> \<not> isPreview (getStaticProps ev preview pd)
        \<and> previewAside (Home (getStaticProps ev preview pd) st)
            = Some (''/api/exit'', ''Preview Mode''))"
proof -
  have a: "hasError (getStaticProps ev preview pd) = Some True \<longrightarrow>
             \<not> isPreview (getStaticProps ev preview pd)"
    by (simp add: getStaticProps_def catch_props_def Let_def split: sum.splits)
  have b: "\<not> isPreview (getStaticProps ev preview pd) \<longrightarrow>
             home_edits (getStaticProps ev preview pd) = JArray []"
    by (simp add: home_edits_def)
  have c: "preview \<and> load_failure ev pd = Some e \<longrightarrow>
        hasError (getStaticProps ev preview pd) = Some True
        \<and> \<not> isPreview (getStaticProps ev preview pd)
        \<and> previewAside (Home (getStaticProps ev preview pd) st)
            = Some (''/api/exit'', ''Preview Mode'')"
    by (auto simp: getStaticProps_failure catch_props_def Home_def)
  from a b c show ?thesis by blast
qed

theorem error_props_report_non_preview_witness:
  "load_failure (failing_env no_such_key) (PreviewData ''abc123'') = Some no_such_key
   \<and> hasError (getStaticProps (failing_env no_such_key) True (PreviewData ''abc123''))
       = Some True
   \<and> \<not> isPreview (getStaticProps (failing_env no_such_key) True (PreviewData ''abc123''))
   \<and> home_edits (getStaticProps (failing_env no_such_key) True (PreviewData ''abc123''))
       = JArray []
   \<and> previewAside (Home (getStaticProps (failing_env no_such_key) True
        (PreviewData ''abc123'')) initial_state) = Some (''/api/exit'', ''Preview Mode'')"
  using error_props_report_non_preview
    [of "failing_env no_such_key" True "PreviewData ''abc123''" no_such_key initial_state]
  by (simp add: load_failure_def failing_env_def no_such_key_def)

section \<open>Facts about capturing\<close>

lemma located_descendants:
  "map snd (located e) = descendants e"
  "map snd (located_from p i cs) = concat (map (\<lambda>c. (p, c) # descendants c) cs)"
  by (induction e and p i cs rule: located_located_from.induct) (simp_all add: comp_def)

lemma located_sound:
  "(pos, q, c) \<in> set (located e) \<Longrightarrow>
     pos \<noteq> [] \<and> node_at e (butlast pos) = Some q \<and> node_at e pos = Some c"
  "(pos, q, c) \<in> set (located_from p i cs) \<Longrightarrow> childElements p = pre @ cs \<Longrightarrow> length pre = i \<Longrightarrow>
     pos \<noteq> [] \<and> node_at p (butlast pos) = Some q \<and> node_at p pos = Some c"
proof (induction e and p i cs arbitrary: pos q c and pos q c pre rule: located_located_from.induct)
  case (1 ats tx cs)
  then show ?case by (auto simp del: node_at.simps)
next
  case (2 p i)
  then show ?case by simp
next
  case (3 p i k cs)
  from "3.prems"(2,3) have ki: "i < length (childElements p)" "childElements p ! i = k"
    by auto
  from "3.prems"(1) consider
      (here) "pos = [i]" "q = p" "c = k"
    | (below) pos' where "pos = i # pos'" "(pos', q, c) \<in> set (located k)"
    | (later) "(pos, q, c) \<in> set (located_from p (Suc i) cs)"
    by auto
  then show ?case
  proof cases
    case here
    then show ?thesis using ki by simp
  next
    case below
    from "3.IH"(1) [OF below(2)] have "pos' \<noteq> []" "node_at k (butlast pos') = Some q"
      "node_at k pos' = Some c" by auto
    then show ?thesis using below(1) ki by simp
  next
    case later
    have "childElements p = (pre @ [k]) @ cs" "length (pre @ [k]) = Suc i"
      using "3.prems"(2,3) by auto
    from "3.IH"(2) [OF later this] show ?thesis .
  qed
qed

lemma located_heads:
  "(pos, qc) \<in> set (located_from p i cs) \<Longrightarrow> pos \<noteq> [] \<and> i \<le> hd pos"
  by (induction cs arbitrary: i) (auto, fastforce)

lemma located_distinct:
  "distinct (map fst (located e))"
  "distinct (map fst (located_from p i cs))"
proof (induction e and p i cs rule: located_located_from.induct)
  case (1 ats tx cs)
  then show ?case by simp
next
  case (2 p i)
  then show ?case by simp
next
  case (3 p i k cs)
  have a: "[i] \<notin> fst ` set (located_from p (Suc i) cs)"
    using located_heads by fastforce
  have b: "[i] \<notin> (\<lambda>e. i # fst e) ` set (located k)"
    using located_sound(1) by (cases k) fastforce
  have c: "distinct (map (\<lambda>e. i # fst e) (located k))"
    using "3.IH"(1) by (simp add: distinct_map inj_on_def)
  have d: "(\<lambda>e. i # fst e) ` set (located k) \<inter> fst ` set (located_from p (Suc i) cs) = {}"
    using located_heads by fastforce
  show ?case using a b c d "3.IH"(2)
    by (auto simp: comp_def image_iff)
qed

lemma located_from_child:
  "j < length cs \<Longrightarrow> ([i + j], p, cs ! j) \<in> set (located_from p i cs)"
proof (induction cs arbitrary: i j)
  case Nil
  then show ?case by simp
next
  case (Cons k cs)
  show ?case
  proof (cases j)
    case 0
    then show ?thesis by simp
  next
    case (Suc j')
    with Cons.prems have "j' < length cs" by simp
    from Cons.IH [OF this, of "Suc i"] show ?thesis using Suc by simp
  qed
qed

lemma located_from_below:
  "j < length cs \<Longrightarrow> (pos, q, c) \<in> set (located (cs ! j)) \<Longrightarrow>
     ((i + j) # pos, q, c) \<in> set (located_from p i cs)"
proof (induction cs arbitrary: i j)
  case Nil
  then show ?case by simp
next
  case (Cons k cs)
  show ?case
  proof (cases j)
    case 0
    then show ?thesis using Cons.prems by force
  next
    case (Suc j')
    with Cons.prems have "j' < length cs" "(pos, q, c) \<in> set (located (cs ! j'))" by simp_all
    from Cons.IH [OF this, of "Suc i"] show ?thesis using Suc by simp
  qed
qed

lemma located_complete:
  "pos \<noteq> [] \<Longrightarrow> node_at e (butlast pos) = Some q \<Longrightarrow> node_at e pos = Some c \<Longrightarrow>
     (pos, q, c) \<in> set (located e)"
proof (induction pos arbitrary: e)
  case Nil
  then show ?case by simp
next
  case (Cons j pos)
  obtain ats tx cs where e: "e = Element ats tx cs" by (cases e)
  from Cons.prems(3) have j: "j < length cs" and c: "node_at (cs ! j) pos = Some c"
    by (auto simp: e split: if_splits)
  show ?case
  proof (cases "pos = []")
    case True
    with Cons.prems(2) c have "q = e" "c = cs ! j" by simp_all
    then show ?thesis using located_from_child [OF j, of 0 e] True by (simp add: e)
  next
    case False
    with Cons.prems(2) j have "node_at (cs ! j) (butlast pos) = Some q" by (simp add: e)
    from Cons.IH [OF False this c] have "(pos, q, c) \<in> set (located (cs ! j))" .
    from located_from_below [OF j this, of 0 e] show ?thesis by (simp add: e)
  qed
qed

lemma located_iff:
  "((pos, q, c) \<in> set (located e)) =
     (pos \<noteq> [] \<and> node_at e (butlast pos) = Some q \<and> node_at e pos = Some c)"
  using located_sound(1) located_complete by blast

lemma region_positions_distinct: "distinct (region_positions document)"
  unfolding region_positions_def
  by (rule distinct_map_filter) (rule located_distinct(1))

lemma region_positions_set:
  "set (region_positions document) = {pos. pos \<noteq> [] \<and>
     (\<exists>p c. node_at document (butlast pos) = Some p \<and> node_at document pos = Some c
        \<and> map_of (attributes p) ''id'' \<noteq> None
        \<and> map_of (attributes c) ''contenteditable'' = Some ''true'')}"
proof -
  have "\<And>pos. (pos \<in> set (region_positions document)) =
          (pos \<noteq> [] \<and>
           (\<exists>p c. node_at document (butlast pos) = Some p \<and> node_at document pos = Some c
              \<and> map_of (attributes p) ''id'' \<noteq> None
              \<and> map_of (attributes c) ''contenteditable'' = Some ''true''))"
  proof -
    fix pos
    have "(pos \<in> set (region_positions document)) =
            (\<exists>q c. (pos, q, c) \<in> set (located document) \<and> editable_region (q, c))"
      by (force simp: region_positions_def)
    also have "\<dots> = (pos \<noteq> [] \<and>
           (\<exists>p c. node_at document (butlast pos) = Some p \<and> node_at document pos = Some c
              \<and> map_of (attributes p) ''id'' \<noteq> None
              \<and> map_of (attributes c) ''contenteditable'' = Some ''true''))"
      by (auto simp: located_iff editable_region_def getAttribute_def)
    finally show "(pos \<in> set (region_positions document)) =
          (pos \<noteq> [] \<and>
           (\<exists>p c. node_at document (butlast pos) = Some p \<and> node_at document pos = Some c
              \<and> map_of (attributes p) ''id'' \<noteq> None
              \<and> map_of (attributes c) ''contenteditable'' = Some ''true''))" .
  qed
  then show ?thesis by blast
qed

lemma persistContents_located:
  "persistContents document =
     map (\<lambda>e. FieldEdit (element_id (fst (snd e))) (innerText (snd (snd e))))
       (filter (\<lambda>e. editable_region (snd e)) (located document))"
proof -
  have "querySelectorAll document
          = map snd (filter (\<lambda>e. editable_region (snd e)) (located document))"
    by (simp add: querySelectorAll_def located_descendants(1) [symmetric] filter_map comp_def)
  then show ?thesis by (simp add: persistContents_def comp_def)
qed

lemma region_edits:
  "list_all2
     (\<lambda>pos fe. \<exists>p c i. node_at document (butlast pos) = Some p \<and> node_at document pos = Some c
         \<and> map_of (attributes p) ''id'' = Some i
         \<and> fe = JObject [(''id'', JString i), (''innerText'', JString (innerText c))])
     (region_positions document) (persistContents document)"
proof -
  have "\<And>e. e \<in> set (located document) \<Longrightarrow> editable_region (snd e) \<Longrightarrow>
          (\<exists>p c i. node_at document (butlast (fst e)) = Some p \<and> node_at document (fst e) = Some c
             \<and> map_of (attributes p) ''id'' = Some i
             \<and> FieldEdit (element_id (fst (snd e))) (innerText (snd (snd e)))
                 = JObject [(''id'', JString i), (''innerText'', JString (innerText c))])"
  proof -
    fix e assume m: "e \<in> set (located document)" and r: "editable_region (snd e)"
    obtain pos q c where e: "e = (pos, q, c)" by (cases e)
    from m e have n: "node_at document (butlast pos) = Some q" "node_at document pos = Some c"
      by (auto dest: located_sound(1))
    from r e obtain i where i: "map_of (attributes q) ''id'' = Some i"
      by (auto simp: editable_region_def getAttribute_def)
    then have "element_id q = i" by (simp add: element_id_def getAttribute_def)
    with n i show "\<exists>p c i. node_at document (butlast (fst e)) = Some p
             \<and> node_at document (fst e) = Some c
             \<and> map_of (attributes p) ''id'' = Some i
             \<and> FieldEdit (element_id (fst (snd e))) (innerText (snd (snd e)))
                 = JObject [(''id'', JString i), (''innerText'', JString (innerText c))]"
      by (simp add: e FieldEdit_def)
  qed
  then show ?thesis
    unfolding region_positions_def persistContents_located
    by (simp add: list_all2_map1 list_all2_map2 list_all2_same)
qed

lemma example_capture: "persistContents example_document = [FieldEdit ''title'' ''Hello'']"
  by (simp add: persistContents_def querySelectorAll_def example_document_def
      editable_region_def getAttribute_def element_id_def)

text \<open>
  Claim C4. The editable regions of a document are its nodes, by position, that carry
  \<^verbatim>\<open>contenteditable="true"\<close> and whose parent node has an \<^verbatim>\<open>id\<close> attribute. There
  is a list of positions that holds every region and each of them once, and the captured
  list goes along it entry by entry: the entry of a region is the object made of the
  value of the parent's \<^verbatim>\<open>id\<close> attribute and of the region's text (under the property
  names \<^verbatim>\<open>id\<close> and \<^verbatim>\<open>innerText\<close>). So the capture has exactly one entry per
  region, also for two regions that are equal as values.
\<close>

theorem capture_one_edit_per_region:
  "\<exists>ps. distinct ps
      \<and> set ps = {pos. pos \<noteq> [] \<and>
           (\<exists>p c. node_at document (butlast pos) = Some p \<and> node_at document pos = Some c
              \<and> map_of (attributes p) ''id'' \<noteq> None
              \<and> map_of (attributes c) ''contenteditable'' = Some ''true'')}
      \<and> list_all2
           (\<lambda>pos fe. \<exists>p c i. node_at document (butlast pos) = Some p
               \<and> node_at document pos = Some c
               \<and> map_of (attributes p) ''id'' = Some i
               \<and> fe = JObject [(''id'', JString i), (''innerText'', JString (innerText c))])
           ps (persistContents document)"
proof -
  from region_positions_distinct region_positions_set region_edits show ?thesis by blast
qed

theorem capture_one_edit_per_region_witness:
  "persistContents two_region_document =
     [ JObject [(''id'', JString ''title''), (''innerText'', JString ''Hello'')],
       JObject [(''id'', JString ''feature-1-text''), (''innerText'', JString ''Fast'')],
       JObject [(''id'', JString ''title''), (''innerText'', JString ''Hello'')] ]
   \<and> region_positions two_region_document = [[0, 0], [1, 0, 0], [2, 0]]"
  using capture_one_edit_per_region [of two_region_document]
  by (simp add: persistContents_def querySelectorAll_def two_region_document_def
      editable_region_def getAttribute_def element_id_def FieldEdit_def region_positions_def)

section \<open>Facts about the JSON functions\<close>

lemma hex_value_digit: "d < 16 \<Longrightarrow> hex_value (hex_digit d) = Some d"
  by (auto simp: hex_value_def hex_digit_def Let_def)

lemma hex4_control: "n < 256 \<Longrightarrow> hex4 CHR ''0'' CHR ''0'' (hex_digit (n div 16)) (hex_digit (n mod 16)) = Some n"
proof -
  assume n: "n < 256"
  then have d: "n div 16 < 16" by simp
  have z: "hex_value CHR ''0'' = Some 0" by (simp add: hex_value_def)
  show ?thesis
    by (simp add: hex4_def z hex_value_digit [OF d] hex_value_digit)
qed

lemma parse_quote_char:
  "parse_chars (quote_char c @ s) = map_option (\<lambda>sr. (c # fst sr, snd sr)) (parse_chars s)"
proof -
  consider (dq) "c = dquote" | (bs) "c = backslash"
    | (b) "c = CHR 0x08" | (f) "c = CHR 0x0C" | (n) "c = CHR 0x0A" | (r) "c = CHR 0x0D"
    | (t) "c = CHR 0x09"
    | (ctl) "c \<noteq> dquote" "c \<noteq> backslash" "c \<noteq> CHR 0x08" "c \<noteq> CHR 0x0C" "c \<noteq> CHR 0x0A"
        "c \<noteq> CHR 0x0D" "c \<noteq> CHR 0x09" "(of_char c :: nat) < 32"
    | (lit) "c \<noteq> dquote" "c \<noteq> backslash" "c \<noteq> CHR 0x08" "c \<noteq> CHR 0x0C"
        "c \<noteq> CHR 0x0A" "c \<noteq> CHR 0x0D" "c \<noteq> CHR 0x09" "\<not> (of_char c :: nat) < 32"
    by (cases "(of_char c :: nat) < 32") auto
  then show ?thesis
  proof cases
    case dq
    then show ?thesis by (simp add: quote_char_def unescape_def)
  next
    case bs
    then show ?thesis by (simp add: quote_char_def unescape_def)
  next
    case b
    then show ?thesis by (simp add: quote_char_def unescape_def)
  next
    case f
    then show ?thesis by (simp add: quote_char_def unescape_def)
  next
    case n
    then show ?thesis by (simp add: quote_char_def unescape_def)
  next
    case r
    then show ?thesis by (simp add: quote_char_def unescape_def)
  next
    case t
    then show ?thesis by (simp add: quote_char_def unescape_def)
  next
    case ctl
    have h: "hex4 CHR ''0'' CHR ''0'' (hex_digit (of_char c div 16)) (hex_digit (of_char c mod 16))
               = Some (of_char c)"
      by (rule hex4_control) simp
    have u: "utf8 (of_char c) = [c]"
      using ctl(8) by (simp add: utf8_def)
    from ctl show ?thesis
      by (simp add: quote_char_def h u)
  next
    case lit
    then show ?thesis by (simp add: quote_char_def)
  qed
qed

lemma parse_quoted_chars:
  "parse_chars (concat (map quote_char s) @ dquote # rest) = Some (s, rest)"
  by (induction s) (simp_all add: parse_quote_char)

lemma parse_chars_quote:
  "parse_chars (tl (quote s) @ rest) = Some (s, rest)"
  by (simp add: quote_def parse_quoted_chars)

lemma skip_ws_nonspace: "\<not> is_space c \<Longrightarrow> skip_ws (c # cs) = c # cs"
  by (simp add: skip_ws_def)

lemma object_of_edit:
  "object_of [(''id'', v), (''innerText'', w)] = [(''id'', v), (''innerText'', w)]"
  by (simp add: object_of_def array_index_def)

lemma serialize_FieldEdit: "serialize nts (FieldEdit i t) = Some (edit_text i t)"
  by (simp add: FieldEdit_def edit_text_def)

lemma parse_edit:
  "parse_value stn (Suc (Suc (Suc (Suc n)))) (edit_text i t @ rest) = Some (FieldEdit i t, rest)"
  by (simp add: edit_text_def quote_def skip_ws_nonspace is_space_def parse_quote_char
      parse_quoted_chars object_of_edit FieldEdit_def)

lemma length_edit_text: "5 \<le> length (edit_text i t)"
  by (simp add: edit_text_def)

lemma edit_text_head: "\<exists>cs. edit_text i t = CHR ''{'' # cs"
  by (simp add: edit_text_def)

lemma length_join: "(\<And>x. x \<in> set ys \<Longrightarrow> k \<le> length x) \<Longrightarrow> k * length ys \<le> length (join sep ys)"
proof (induction sep ys rule: join.induct)
  case (1 sep)
  then show ?case by simp
next
  case (2 sep x)
  then show ?case by simp
next
  case (3 sep x y ys)
  have "k \<le> length x" using "3.prems" by simp
  moreover have "k * length (y # ys) \<le> length (join sep (y # ys))"
    using "3.IH" "3.prems" by simp
  ultimately show ?case by simp
qed

lemma parse_edits:
  "xs \<noteq> [] \<Longrightarrow> length xs + 4 \<le> m \<Longrightarrow>
     parse_elements stn m
       (join '','' (map (\<lambda>x. edit_text (fst x) (snd x)) xs) @ CHR '']'' # rest)
     = Some (map (\<lambda>x. FieldEdit (fst x) (snd x)) xs, rest)"
proof (induction xs arbitrary: m)
  case Nil
  then show ?case by simp
next
  case (Cons x xs)
  define n where "n = m - 5"
  from Cons.prems(2) have m: "m = Suc (Suc (Suc (Suc (Suc n))))" and n: "length xs \<le> n"
    by (simp_all add: n_def)
  show ?case
  proof (cases xs)
    case Nil
    then show ?thesis
      by (simp add: m parse_edit skip_ws_nonspace is_space_def del: parse_value.simps)
  next
    case (Cons y ys)
    have "length xs + 4 \<le> Suc (Suc (Suc (Suc n)))" using n by simp
    from Cons.IH [OF _ this] Cons
    have ih: "parse_elements stn (Suc (Suc (Suc (Suc n))))
       (join '','' (map (\<lambda>x. edit_text (fst x) (snd x)) xs) @ CHR '']'' # rest)
     = Some (map (\<lambda>x. FieldEdit (fst x) (snd x)) xs, rest)" by simp
    show ?thesis
      using ih by (simp add: m Cons parse_edit skip_ws_nonspace is_space_def del: parse_value.simps)
  qed
qed

lemma join_head: "\<exists>r. join sep ((c # cs) # ys) = c # r"
  by (cases ys) simp_all

lemma serialize_edits:
  "serialize nts (JArray (map (\<lambda>x. FieldEdit (fst x) (snd x)) xs)) =
     Some (CHR ''['' # join '','' (map (\<lambda>x. edit_text (fst x) (snd x)) xs) @ '']'')"
  by (simp add: serialize_FieldEdit comp_def)

lemma parse_stringified_edits:
  "json_parse stn (json_stringify nts (JArray (map (\<lambda>x. FieldEdit (fst x) (snd x)) xs)))
     = Inr (JArray (map (\<lambda>x. FieldEdit (fst x) (snd x)) xs))"
proof (cases xs)
  case Nil
  then show ?thesis
    by (simp add: json_parse_def json_stringify_def skip_ws_nonspace is_space_def)
      (simp add: skip_ws_def)
next
  case (Cons y ys)
  let ?J = "join '','' (map (\<lambda>x. edit_text (fst x) (snd x)) xs)"
  have ne: "xs \<noteq> []" using Cons by simp
  obtain es where "edit_text (fst y) (snd y) = CHR ''{'' # es"
    using edit_text_head by blast
  then have "\<exists>cs. ?J = CHR ''{'' # cs"
    using join_head [of "'',''" "CHR ''{''" es] by (simp add: Cons)
  then obtain cs where J: "?J = CHR ''{'' # cs" ..
  have "5 * length (map (\<lambda>x. edit_text (fst x) (snd x)) xs) \<le> length ?J"
    by (rule length_join) (auto simp: length_edit_text)
  then have "length xs + 4 \<le> Suc (Suc (length ?J))"
    using ne by (cases xs) simp_all
  from parse_edits [OF ne this, of stn "[]"]
  have p: "parse_elements stn (Suc (Suc (length ?J))) (?J @ '']'')
             = Some (map (\<lambda>x. FieldEdit (fst x) (snd x)) xs, [])" by simp
  have t: "json_stringify nts (JArray (map (\<lambda>x. FieldEdit (fst x) (snd x)) xs))
             = CHR ''['' # ?J @ '']''"
    by (simp add: json_stringify_def serialize_edits del: serialize.simps)
  have v: "parse_value stn (Suc (length (CHR ''['' # ?J @ '']''))) (CHR ''['' # ?J @ '']'')
             = Some (JArray (map (\<lambda>x. FieldEdit (fst x) (snd x)) xs), [])"
    using p by (simp add: J skip_ws_nonspace is_space_def del: parse_elements.simps)
  show ?thesis
    unfolding t json_parse_def v by (simp add: skip_ws_def)
qed

lemma persistContents_edits:
  "persistContents document =
     map (\<lambda>x. FieldEdit (fst x) (snd x))
       (map (\<lambda>pc. (element_id (fst pc), innerText (snd pc))) (querySelectorAll document))"
  by (simp add: persistContents_def comp_def)

lemma parse_stringified_capture:
  "json_parse stn (json_stringify nts (JArray (persistContents document)))
     = Inr (JArray (persistContents document))"
  unfolding persistContents_edits by (rule parse_stringified_edits)

lemma stringify_example_payload:
  "json_stringify nts (JArray [FieldEdit ''title'' ''Hello'']) = example_payload_text"
  by (simp add: json_stringify_def FieldEdit_def quote_def quote_char_def example_payload_text_def)

lemma parse_example_reply:
  "json_parse stn example_reply_text = Inr (JObject [(''snapshotId'', JString ''abc123'')])"
  by (simp add: json_parse_def example_reply_text_def skip_ws_def is_space_def
      object_of_def array_index_def)

lemma parse_null: "json_parse stn ''null'' = Inr JNull"
  by (simp add: json_parse_def skip_ws_def is_space_def)

lemma parse_html: "json_parse read_no_number ''<html>'' = Inl (SyntaxError ''Unexpected token in JSON'')"
  by (simp add: json_parse_def skip_ws_def is_space_def number_char_def)

section \<open>Facts about \<^verbatim>\<open>share\<close>\<close>

lemma settle_cases:
  "settle prs r = Some effs \<Longrightarrow>
     (\<exists>e. effs = [SetError e, SetSharing False])
     \<or> (\<exists>v. effs = [SetSnapshotId v, SetSharing False])"
  by (auto simp: settle_def on_json_def split: promise.splits fetch_result.splits if_splits)

lemma settle_rejected: "settle prs (FetchRejected e) = Some [SetError e, SetSharing False]"
  by (simp add: settle_def)

lemma settle_not_ok:
  "\<not> ok res \<Longrightarrow> response_body res = Inr t \<Longrightarrow>
     settle prs (FetchResolved res) = Some [SetError (Error t), SetSharing False]"
  by (simp add: settle_def on_response_def res_text_def)

lemma settle_ok:
  "ok res \<Longrightarrow> res_json prs res = Inr v \<Longrightarrow> v \<noteq> JNull \<Longrightarrow> v \<noteq> JUndefined \<Longrightarrow>
     settle prs (FetchResolved res) =
       Some [SetSnapshotId (get_property v ''snapshotId''), SetSharing False]"
  by (simp add: settle_def on_response_def on_json_def)

lemma settle_ok_unreadable:
  "ok res \<Longrightarrow> response_body res = Inl e \<Longrightarrow>
     settle prs (FetchResolved res) = Some [SetError e, SetSharing False]"
  by (simp add: settle_def on_response_def res_json_def)

lemma settle_ok_unparsable:
  "ok res \<Longrightarrow> response_body res = Inr t \<Longrightarrow> prs t = Inl e \<Longrightarrow>
     settle prs (FetchResolved res) = Some [SetError e, SetSharing False]"
  by (simp add: settle_def on_response_def res_json_def)

lemma settle_ok_parsed:
  "ok res \<Longrightarrow> response_body res = Inr t \<Longrightarrow> prs t = Inr v \<Longrightarrow>
     settle prs (FetchResolved res) =
       Some (if v = JNull \<or> v = JUndefined
             then [SetError (TypeError destructure_message), SetSharing False]
             else [SetSnapshotId
                     (case v of
                        JObject kvs \<Rightarrow>
                          (case map_of kvs ''snapshotId'' of None \<Rightarrow> JUndefined | Some x \<Rightarrow> x)
                      | _ \<Rightarrow> JUndefined),
                   SetSharing False])"
  by (cases v) (simp_all add: settle_def on_response_def res_json_def on_json_def)

lemma apply_SetError:
  "apply_effects st [SetError e, SetSharing False] =
     st\<lparr> currentError := Some e, hasSaveRequest := False, isSharingView := False \<rparr>"
  by (simp add: apply_effects_def setSharing_def)

lemma apply_SetSnapshotId:
  "apply_effects st [SetSnapshotId v, SetSharing False] =
     st\<lparr> currentSnapshotId := v, hasSaveRequest := False, isSharingView := False \<rparr>"
  by (simp add: apply_effects_def setSharing_def)

lemma share_request:
  "Fetch q \<in> set (share str document st) \<Longrightarrow>
     body q = str (JArray (persistContents document))"
  by (auto simp: share_def split: if_splits)

lemma guarded_step: "guarded w \<Longrightarrow> guarded (step str prs w ev)"
proof (cases ev)
  case (Share d)
  assume "guarded w"
  then show ?thesis using Share
    by (auto simp: guarded_def share_def setSharing_def)
next
  case (Settle r)
  assume g: "guarded w"
  show ?thesis
  proof (cases "in_flight w")
    case Nil
    then show ?thesis using g Settle by simp
  next
    case (Cons q qs)
    with g have qs: "qs = []" by (simp add: guarded_def)
    show ?thesis
    proof (cases "settle prs r")
      case None
      then show ?thesis using Settle Cons qs by (simp add: guarded_def)
    next
      case (Some effs)
      from settle_cases [OF Some] show ?thesis
        using Settle Cons qs Some by (auto simp: guarded_def)
    qed
  qed
qed (auto simp: guarded_def toggleEdit_def onClearError_def clearSnapshot_def)

lemma guarded_run: "guarded w \<Longrightarrow> guarded (run str prs w evs)"
  unfolding run_def
  by (induction evs arbitrary: w) (simp_all add: guarded_step)

lemma guarded_initial: "guarded initial_world"
  by (simp add: guarded_def initial_world_def)

text \<open>
  Claim C3. In every state the page can reach from its initial state, through any
  sequence of share invocations, answers of the network and other actions: while a save
  request is in flight, invoking \<^verbatim>\<open>share\<close> performs no effect at all. The whole state
  stays as it is, so no request is sent (and the save endpoint, which creates a snapshot
  per request, creates none), the page rendered from the state is the same, and the one
  request in flight stays the only one.
\<close>

theorem share_suppressed_while_in_flight:
  assumes "w = run str prs initial_world evs" and "in_flight w \<noteq> []"
  shows "share str document (ui w) = []
         \<and> step str prs w (Share document) = w
         \<and> sent (step str prs w (Share document)) = sent w
         \<and> Home p (ui (step str prs w (Share document))) = Home p (ui w)
         \<and> length (in_flight w) = 1"
proof -
  have "guarded w"
    using assms(1) guarded_run [OF guarded_initial] by simp
  with assms(2) have g: "hasSaveRequest (ui w)" and l: "length (in_flight w) = 1"
    by (auto simp: guarded_def Suc_le_eq le_Suc_eq)
  from g have s: "share str document (ui w) = []"
    by (simp add: share_def)
  then have "step str prs w (Share document) = w" by simp
  with s l show ?thesis by simp
qed

theorem share_suppressed_while_in_flight_witness:
  "in_flight (run example_stringify example_parse initial_world
       [ToggleEdit, Share example_document]) \<noteq> []
   \<and> run example_stringify example_parse initial_world
       [ToggleEdit, Share example_document, Share example_document]
     = run example_stringify example_parse initial_world [ToggleEdit, Share example_document]
   \<and> length (sent (run example_stringify example_parse initial_world
       [ToggleEdit, Share example_document, Share example_document])) = 1"
  using share_suppressed_while_in_flight
    [of "run example_stringify example_parse initial_world [ToggleEdit, Share example_document]"
        example_stringify example_parse "[ToggleEdit, Share example_document]"
        example_document canonical_props]
  by (simp add: run_def share_def initial_world_def initial_state_def toggleEdit_def
      setSharing_def)

text \<open>
  The guard on the paths that settle. An accepted \<^verbatim>\<open>share\<close> sets the guard first and
  issues the request after it; every way the promise chain settles, with a snapshot id or
  with an error, ends by clearing the guard, so after it the guard and the busy indicator
  are off and the next \<^verbatim>\<open>share\<close> is accepted and issues a request. The chain settles
  for every outcome but one: a non-ok response whose body cannot be read.
\<close>

theorem guard_set_before_request_and_cleared_on_settle:
  "(\<not> hasSaveRequest st \<longrightarrow>
      (\<exists>q. share str document st = [SetSharing True, Fetch q])
      \<and> hasSaveRequest (apply_effects st (share str document st)))
   \<and> (settle prs r = Some effs \<longrightarrow>
        last effs = SetSharing False
        \<and> \<not> hasSaveRequest (apply_effects st effs)
        \<and> \<not> isSharingView (apply_effects st effs)
        \<and> (\<exists>q. share str document (apply_effects st effs) = [SetSharing True, Fetch q]))
   \<and> ((settle prs r = None) =
        (\<exists>res e. r = FetchResolved res \<and> \<not> ok res \<and> response_body res = Inl e))"
proof -
  have a: "\<not> hasSaveRequest st \<longrightarrow>
      (\<exists>q. share str document st = [SetSharing True, Fetch q])
      \<and> hasSaveRequest (apply_effects st (share str document st))"
    by (simp add: share_def apply_effects_def setSharing_def)
  have b: "settle prs r = Some effs \<longrightarrow>
        last effs = SetSharing False
        \<and> \<not> hasSaveRequest (apply_effects st effs)
        \<and> \<not> isSharingView (apply_effects st effs)
        \<and> (\<exists>q. share str document (apply_effects st effs) = [SetSharing True, Fetch q])"
  proof
    assume "settle prs r = Some effs"
    from settle_cases [OF this] show "last effs = SetSharing False
        \<and> \<not> hasSaveRequest (apply_effects st effs)
        \<and> \<not> isSharingView (apply_effects st effs)
        \<and> (\<exists>q. share str document (apply_effects st effs) = [SetSharing True, Fetch q])"
      by (auto simp: apply_effects_def setSharing_def share_def)
  qed
  have c: "(settle prs r = None) =
        (\<exists>res e. r = FetchResolved res \<and> \<not> ok res \<and> response_body res = Inl e)"
    by (auto simp: settle_def on_response_def on_json_def res_text_def
        split: fetch_result.splits sum.splits)
  from a b c show ?thesis by blast
qed

theorem guard_set_before_request_and_cleared_on_settle_witness:
  "\<not> hasSaveRequest initial_state
   \<and> share example_stringify example_document initial_state
       = [SetSharing True, Fetch example_request]
   \<and> hasSaveRequest (apply_effects initial_state
        (share example_stringify example_document initial_state))
   \<and> settle example_parse (FetchResolved example_failure)
       = Some [SetError (Error ''StoreUnavailable''), SetSharing False]
   \<and> \<not> hasSaveRequest (apply_effects
        (apply_effects initial_state (share example_stringify example_document initial_state))
        [SetError (Error ''StoreUnavailable''), SetSharing False])"
  using guard_set_before_request_and_cleared_on_settle
    [of initial_state example_stringify example_document example_parse
        "FetchResolved example_failure"
        "[SetError (Error ''StoreUnavailable''), SetSharing False]"]
    guard_set_before_request_and_cleared_on_settle
    [of "apply_effects initial_state (share example_stringify example_document initial_state)"
        example_stringify example_document example_parse
        "FetchResolved example_failure"
        "[SetError (Error ''StoreUnavailable''), SetSharing False]"]
  by (simp add: settle_not_ok example_failure_def ok_def initial_state_def share_def
      example_capture example_stringify_def example_payload_def example_request_def
      apply_effects_def setSharing_def)

lemma stuck_step: "stuck w \<Longrightarrow> stuck (step str prs w ev) \<and> sent (step str prs w ev) = sent w"
  by (cases ev)
    (auto simp: stuck_def share_def toggleEdit_def onClearError_def clearSnapshot_def)

lemma stuck_run: "stuck w \<Longrightarrow> stuck (run str prs w evs) \<and> sent (run str prs w evs) = sent w"
proof (induction evs arbitrary: w)
  case Nil
  then show ?case by (simp add: run_def)
next
  case (Cons ev evs)
  from stuck_step [OF Cons.prems, of str prs ev]
  have s: "stuck (step str prs w ev)" and t: "sent (step str prs w ev) = sent w" by auto
  from Cons.IH [OF s] t show ?case by (simp add: run_def)
qed

lemma settle_unreadable:
  "\<not> ok res \<Longrightarrow> response_body res = Inl e \<Longrightarrow> settle prs (FetchResolved res) = None"
  by (simp add: settle_def on_response_def res_text_def)

text \<open>
  Claim C5 fails on that one outcome, a failure path of the save. The first save is
  answered by a non-ok response whose body cannot be read: the promise built in the first
  \<^verbatim>\<open>then\<close> is never settled, \<^verbatim>\<open>catch\<close> and \<^verbatim>\<open>finally\<close> never run, and the
  guard is not cleared. Whatever happens afterwards, the guard stays set, no request is
  in flight, every further \<^verbatim>\<open>share\<close> does nothing, and the first request is the only
  one ever sent: no retry is possible.
\<close>

theorem guard_stays_set_after_unreadable_error_body:
  "hasSaveRequest (ui (run str prs initial_world
      (Share document # Settle (FetchResolved \<lparr> status = 500, response_body = Inl e \<rparr>) # evs)))
   \<and> in_flight (run str prs initial_world
      (Share document # Settle (FetchResolved \<lparr> status = 500, response_body = Inl e \<rparr>) # evs))
       = []
   \<and> length (sent (run str prs initial_world
      (Share document # Settle (FetchResolved \<lparr> status = 500, response_body = Inl e \<rparr>) # evs)))
       = 1
   \<and> share str document' (ui (run str prs initial_world
      (Share document # Settle (FetchResolved \<lparr> status = 500, response_body = Inl e \<rparr>) # evs)))
       = []"
proof -
  let ?r = "FetchResolved \<lparr> status = 500, response_body = Inl e \<rparr>"
  let ?w = "run str prs initial_world [Share document, Settle ?r]"
  have n: "settle prs ?r = None"
    by (rule settle_unreadable) (simp_all add: ok_def)
  have w: "stuck ?w \<and> length (sent ?w) = 1"
    by (simp add: run_def share_def initial_world_def initial_state_def n stuck_def
        setSharing_def)
  have r: "run str prs initial_world (Share document # Settle ?r # evs) = run str prs ?w evs"
    by (simp add: run_def)
  from stuck_run [of ?w str prs evs] w
  have "stuck (run str prs ?w evs)" "length (sent (run str prs ?w evs)) = 1" by auto
  then show ?thesis
    unfolding r by (simp add: stuck_def share_def)
qed

text \<open>
  Claim C9, as stated, fails on success: the claim has a successful response set the
  snapshot id and leave the error as it is. An ok response whose body is \<^verbatim>\<open>null\<close>
  makes the destructuring of \<^verbatim>\<open>{ snapshotId }\<close> throw, and one whose body is not JSON
  makes \<^verbatim>\<open>res.json()\<close> reject: the chain then sets the error and leaves the snapshot
  id as it is.
\<close>

theorem ok_response_with_null_body_sets_error:
  "ok null_reply
   \<and> settle (json_parse read_no_number) (FetchResolved null_reply)
       = Some [SetError (TypeError destructure_message), SetSharing False]
   \<and> currentError (apply_effects initial_state
         [SetError (TypeError destructure_message), SetSharing False])
       = Some (TypeError destructure_message)
   \<and> currentSnapshotId (apply_effects initial_state
         [SetError (TypeError destructure_message), SetSharing False])
       = currentSnapshotId initial_state
   \<and> ok html_reply
   \<and> settle (json_parse read_no_number) (FetchResolved html_reply)
       = Some [SetError (SyntaxError ''Unexpected token in JSON''), SetSharing False]"
  by (simp add: settle_ok_parsed [where t = "''null''" and v = JNull]
      settle_ok_unparsable [where t = "''<html>''"
        and e = "SyntaxError ''Unexpected token in JSON''"]
      null_reply_def html_reply_def ok_def parse_null parse_html apply_SetError
      initial_state_def)

text \<open>
  Claim C9, amended. When the promise chain of a save settles, it calls exactly one of
  the two setters before clearing the guard. Either the error is set, and then the
  snapshot id and with it the share-link dialog are as before; or the snapshot id is set,
  and then the error and with it the error dialog are as before. The error is set on a
  network failure (the rejection's error), on a non-ok response (an error whose message
  is the text of the response body), and on an ok response whose body cannot be read, is
  not JSON, or is \<^verbatim>\<open>null\<close>. The snapshot id is set on an ok response whose body is JSON
  other than \<^verbatim>\<open>null\<close>: to the value of the body's property \<^verbatim>\<open>snapshotId\<close>, and to
  \<^verbatim>\<open>undefined\<close> when the body has none.
\<close>

theorem settle_sets_exactly_one_dialog_state:
  assumes "settle prs r = Some effs"
  shows "((\<exists>e. effs = [SetError e, SetSharing False]
              \<and> currentError (apply_effects st effs) = Some e
              \<and> currentSnapshotId (apply_effects st effs) = currentSnapshotId st
              \<and> errorDialog (Home p (apply_effects st effs)) = Some (error_message e)
              \<and> shareLinkDialog (Home p (apply_effects st effs)) = shareLinkDialog (Home p st))
          \<noteq>
          (\<exists>v. effs = [SetSnapshotId v, SetSharing False]
              \<and> currentSnapshotId (apply_effects st effs) = v
              \<and> currentError (apply_effects st effs) = currentError st
              \<and> errorDialog (Home p (apply_effects st effs)) = errorDialog (Home p st)))
         \<and> (\<forall>e. r = FetchRejected e \<longrightarrow> effs = [SetError e, SetSharing False])
         \<and> (\<forall>res t. r = FetchResolved res \<and> \<not> ok res \<and> response_body res = Inr t \<longrightarrow>
               effs = [SetError (Error t), SetSharing False])
         \<and> (\<forall>res e. r = FetchResolved res \<and> ok res \<and> response_body res = Inl e \<longrightarrow>
               effs = [SetError e, SetSharing False])
         \<and> (\<forall>res t e. r = FetchResolved res \<and> ok res \<and> response_body res = Inr t
                 \<and> prs t = Inl e \<longrightarrow>
               effs = [SetError e, SetSharing False])
         \<and> (\<forall>res t v. r = FetchResolved res \<and> ok res \<and> response_body res = Inr t
                 \<and> prs t = Inr v \<longrightarrow>
               effs =
                 (if v = JNull \<or> v = JUndefined
                  then [SetError (TypeError destructure_message), SetSharing False]
                  else [SetSnapshotId
                          (case v of
                             JObject kvs \<Rightarrow>
                               (case map_of kvs ''snapshotId'' of
                                  None \<Rightarrow> JUndefined | Some x \<Rightarrow> x)
                           | _ \<Rightarrow> JUndefined),
                        SetSharing False]))"
proof -
  have a: "(\<exists>e. effs = [SetError e, SetSharing False]
              \<and> currentError (apply_effects st effs) = Some e
              \<and> currentSnapshotId (apply_effects st effs) = currentSnapshotId st
              \<and> errorDialog (Home p (apply_effects st effs)) = Some (error_message e)
              \<and> shareLinkDialog (Home p (apply_effects st effs)) = shareLinkDialog (Home p st))
          \<noteq>
          (\<exists>v. effs = [SetSnapshotId v, SetSharing False]
              \<and> currentSnapshotId (apply_effects st effs) = v
              \<and> currentError (apply_effects st effs) = currentError st
              \<and> errorDialog (Home p (apply_effects st effs)) = errorDialog (Home p st))"
    using settle_cases [OF assms]
    by (auto simp: apply_SetError apply_SetSnapshotId Home_def)
  have b: "\<forall>e. r = FetchRejected e \<longrightarrow> effs = [SetError e, SetSharing False]"
    using assms by (auto simp: settle_rejected)
  have c: "\<forall>res t. r = FetchResolved res \<and> \<not> ok res \<and> response_body res = Inr t \<longrightarrow>
               effs = [SetError (Error t), SetSharing False]"
    using assms by (auto simp: settle_not_ok)
  have d: "\<forall>res e. r = FetchResolved res \<and> ok res \<and> response_body res = Inl e \<longrightarrow>
               effs = [SetError e, SetSharing False]"
    using assms by (auto simp: settle_ok_unreadable)
  have e: "\<forall>res t e. r = FetchResolved res \<and> ok res \<and> response_body res = Inr t
                 \<and> prs t = Inl e \<longrightarrow>
               effs = [SetError e, SetSharing False]"
    using assms by (auto simp: settle_ok_unparsable)
  have f: "\<forall>res t v. r = FetchResolved res \<and> ok res \<and> response_body res = Inr t
                 \<and> prs t = Inr v \<longrightarrow>
               effs =
                 (if v = JNull \<or> v = JUndefined
                  then [SetError (TypeError destructure_message), SetSharing False]
                  else [SetSnapshotId
                          (case v of
                             JObject kvs \<Rightarrow>
                               (case map_of kvs ''snapshotId'' of
                                  None \<Rightarrow> JUndefined | Some x \<Rightarrow> x)
                           | _ \<Rightarrow> JUndefined),
                        SetSharing False])"
  proof (intro allI impI)
    fix res t v
    assume h: "r = FetchResolved res \<and> ok res \<and> response_body res = Inr t \<and> prs t = Inr v"
    then have "settle prs r = Some (if v = JNull \<or> v = JUndefined
                  then [SetError (TypeError destructure_message), SetSharing False]
                  else [SetSnapshotId
                          (case v of
                             JObject kvs \<Rightarrow>
                               (case map_of kvs ''snapshotId'' of
                                  None \<Rightarrow> JUndefined | Some x \<Rightarrow> x)
                           | _ \<Rightarrow> JUndefined),
                        SetSharing False])"
      using settle_ok_parsed [of res t prs v] by simp
    with assms show "effs =
                 (if v = JNull \<or> v = JUndefined
                  then [SetError (TypeError destructure_message), SetSharing False]
                  else [SetSnapshotId
                          (case v of
                             JObject kvs \<Rightarrow>
                               (case map_of kvs ''snapshotId'' of
                                  None \<Rightarrow> JUndefined | Some x \<Rightarrow> x)
                           | _ \<Rightarrow> JUndefined),
                        SetSharing False])" by simp
  qed
  from a b c d e f show ?thesis by blast
qed

theorem settle_sets_exactly_one_dialog_state_witness:
  "settle (json_parse read_no_number) (FetchResolved example_success)
     = Some [SetSnapshotId (JString ''abc123''), SetSharing False]
   \<and> currentSnapshotId (apply_effects initial_state
        [SetSnapshotId (JString ''abc123''), SetSharing False]) = JString ''abc123''
   \<and> shareLinkDialog (Home canonical_props (apply_effects initial_state
        [SetSnapshotId (JString ''abc123''), SetSharing False])) = Some (JString ''abc123'')
   \<and> errorDialog (Home canonical_props (apply_effects initial_state
        [SetSnapshotId (JString ''abc123''), SetSharing False])) = None
   \<and> settle (json_parse read_no_number) (FetchResolved example_failure)
     = Some [SetError (Error ''StoreUnavailable''), SetSharing False]
   \<and> currentError (apply_effects initial_state
        [SetError (Error ''StoreUnavailable''), SetSharing False])
       = Some (Error ''StoreUnavailable'')
   \<and> currentSnapshotId (apply_effects initial_state
        [SetError (Error ''StoreUnavailable''), SetSharing False]) = JNull
   \<and> shareLinkDialog (Home canonical_props (apply_effects initial_state
        [SetError (Error ''StoreUnavailable''), SetSharing False])) = None"
proof -
  have s1: "settle (json_parse read_no_number) (FetchResolved example_success)
              = Some [SetSnapshotId (JString ''abc123''), SetSharing False]"
    using settle_ok_parsed [of example_success example_reply_text "json_parse read_no_number"
        "JObject [(''snapshotId'', JString ''abc123'')]"]
    by (simp add: example_success_def ok_def parse_example_reply)
  have s2: "settle (json_parse read_no_number) (FetchResolved example_failure)
              = Some [SetError (Error ''StoreUnavailable''), SetSharing False]"
    by (simp add: settle_not_ok example_failure_def ok_def)
  have a1: "apply_effects initial_state [SetSnapshotId (JString ''abc123''), SetSharing False]
              = initial_state\<lparr> currentSnapshotId := JString ''abc123'' \<rparr>"
    by (simp add: apply_SetSnapshotId initial_state_def)
  have a2: "apply_effects initial_state [SetError (Error ''StoreUnavailable''), SetSharing False]
              = initial_state\<lparr> currentError := Some (Error ''StoreUnavailable'') \<rparr>"
    by (simp add: apply_SetError initial_state_def)
  have w: "settle (json_parse read_no_number) (FetchResolved example_success)
     = Some [SetSnapshotId (JString ''abc123''), SetSharing False]
   \<and> currentSnapshotId (apply_effects initial_state
        [SetSnapshotId (JString ''abc123''), SetSharing False]) = JString ''abc123''
   \<and> shareLinkDialog (Home canonical_props (apply_effects initial_state
        [SetSnapshotId (JString ''abc123''), SetSharing False])) = Some (JString ''abc123'')
   \<and> errorDialog (Home canonical_props (apply_effects initial_state
        [SetSnapshotId (JString ''abc123''), SetSharing False])) = None
   \<and> settle (json_parse read_no_number) (FetchResolved example_failure)
     = Some [SetError (Error ''StoreUnavailable''), SetSharing False]
   \<and> currentError (apply_effects initial_state
        [SetError (Error ''StoreUnavailable''), SetSharing False])
       = Some (Error ''StoreUnavailable'')
   \<and> currentSnapshotId (apply_effects initial_state
        [SetError (Error ''StoreUnavailable''), SetSharing False]) = JNull
   \<and> shareLinkDialog (Home canonical_props (apply_effects initial_state
        [SetError (Error ''StoreUnavailable''), SetSharing False])) = None"
    unfolding a1 a2 by (simp add: s1 s2 initial_state_def Home_def)
  from settle_sets_exactly_one_dialog_state [OF s1, of initial_state canonical_props]
    settle_sets_exactly_one_dialog_state [OF s2, of initial_state canonical_props]
  show ?thesis by - (rule w)
qed

section \<open>Save, then load\<close>

text \<open>
  Claim C6. Let \<^verbatim>\<open>share\<close> issue its request for a document, let the save endpoint store
  it under a new identifier, and let a preview request for that identifier be rendered,
  with the platform's \<^verbatim>\<open>JSON.stringify\<close> and \<^verbatim>\<open>JSON.parse\<close> on both sides. Then
  the stored blob is the serialised captured list, the props of the preview carry exactly
  the captured list as \<open>contents\<close>, and the page hands exactly that list to every editable
  region: the edits a viewer sees applied are the captured ones, id for id and text for
  text, whatever the ids and the texts are.
\<close>

theorem save_then_load_round_trip:
  assumes "Fetch q \<in> set (share (json_stringify nts) document st)"
    and "api_save (json_stringify nts) (json_parse stn) new_id True store q = (store', res)"
  shows "store' (new_id @ ''.json'') = Some (json_stringify nts (JArray (persistContents document)))
         \<and> getStaticProps (store_env bucket missing store' (json_parse stn)) True
               (PreviewData new_id) =
             \<lparr> isPreview = True, hasError = None, message = None, snapshotId = Some new_id,
               contents = Some (JArray (persistContents document)) \<rparr>
         \<and> main (Home (getStaticProps (store_env bucket missing store' (json_parse stn)) True
               (PreviewData new_id)) st') =
             ContentPage (Content (isEdit st') (JArray (persistContents document)))
         \<and> (\<forall>m \<in> set (regions (main (Home (getStaticProps
                (store_env bucket missing store' (json_parse stn)) True
                (PreviewData new_id)) st'))).
               edits m = JArray (persistContents document))"
proof -
  let ?ev = "store_env bucket missing store' (json_parse stn)"
  have b: "body q = json_stringify nts (JArray (persistContents document))"
    using assms(1) by (rule share_request)
  have s: "store' (new_id @ ''.json'')
             = Some (json_stringify nts (JArray (persistContents document)))"
    using assms(2) by (auto simp: api_save_def b parse_stringified_capture)
  have g: "getStaticProps ?ev True (PreviewData new_id) =
           \<lparr> isPreview = True, hasError = None, message = None, snapshotId = Some new_id,
             contents = Some (JArray (persistContents document)) \<rparr>"
    by (simp add: getStaticProps_def store_env_def s3_of_store_def s parse_stringified_capture)
  have h: "main (Home (getStaticProps ?ev True (PreviewData new_id)) st') =
             ContentPage (Content (isEdit st') (JArray (persistContents document)))"
    by (simp add: g Home_def home_edits_def)
  have r: "\<forall>m \<in> set (regions (main (Home (getStaticProps ?ev True (PreviewData new_id)) st'))).
               edits m = JArray (persistContents document)"
    by (auto simp: h dest: Content_edits)
  from s g h r show ?thesis by blast
qed

theorem save_then_load_round_trip_witness:
  "Fetch example_request
     \<in> set (share (json_stringify write_no_number) example_document initial_state)
   \<and> fst (api_save (json_stringify write_no_number) (json_parse read_no_number) ''abc123''
        True (\<lambda>k. None) example_request) ''abc123.json'' = Some example_payload_text
   \<and> contents (getStaticProps
        (store_env ''snapshots'' access_denied
           (fst (api_save (json_stringify write_no_number) (json_parse read_no_number)
              ''abc123'' True (\<lambda>k. None) example_request))
           (json_parse read_no_number))
        True (PreviewData ''abc123''))
       = Some (JArray [FieldEdit ''title'' ''Hello''])"
  using save_then_load_round_trip
    [of example_request write_no_number example_document initial_state read_no_number
        "''abc123''" "\<lambda>k. None"
        "fst (api_save (json_stringify write_no_number) (json_parse read_no_number)
              ''abc123'' True (\<lambda>k. None) example_request)"
        "snd (api_save (json_stringify write_no_number) (json_parse read_no_number)
              ''abc123'' True (\<lambda>k. None) example_request)"
        "''snapshots''" access_denied initial_state]
  by (simp add: share_def initial_state_def example_capture stringify_example_payload
      example_request_def)

end
